theory Spec2Isabelle
  imports Complex_Main "HOL-Library.Word"
begin

unbundle bit_operations_syntax

section \<open>Python values used by the DNS query tool\<close>

text \<open>
  A \<^verbatim>\<open>bytes\<close> object is a list of 8-bit words; indexing it gives a Python integer,
  read with \<open>unat\<close>. Python integers are unbounded (\<open>nat\<close> or \<open>int\<close>). A \<^verbatim>\<open>str\<close> is a
  \<open>string\<close>, one \<open>char\<close> per code point; a code point from 128 on is not ASCII.
  Exceptions are values of \<open>py_error\<close>; a call that raises returns \<open>Inl\<close>.
  A call that may run forever returns an \<open>option\<close>, \<open>None\<close> when it does not return.
\<close>

type_synonym byte = "8 word"
type_synonym bytes = "byte list"

datatype py_error =
    PacketTooShort
  | TransactionIdMismatch int nat
  | UnsupportedRecordType string
  | InvalidDomainNameLength
  | LabelTooLong string
  | UnicodeEncodeError
  | StructError
  | IndexError
  | KeyError
  | TransportError string
  | ImportFailed py_error

text \<open>\<^verbatim>\<open>xs[a:b]\<close> for non-negative \<open>a\<close> and \<open>b\<close>: clipped at the end, never raising.\<close>

definition slice :: "'a list \<Rightarrow> nat \<Rightarrow> nat \<Rightarrow> 'a list" where
  "slice xs a b = drop a (take b xs)"

text \<open>\<^verbatim>\<open>struct.pack('!H', v)\<close> and \<^verbatim>\<open>struct.pack('!B', v)\<close> at values in range.\<close>

definition pack_H :: "nat \<Rightarrow> bytes" where
  "pack_H v = [of_nat (v div 256), of_nat (v mod 256)]"

definition pack_B :: "nat \<Rightarrow> bytes" where
  "pack_B v = [of_nat v]"

text \<open>\<^verbatim>\<open>struct.unpack('!H', bs)[0]\<close>: \<^verbatim>\<open>struct.error\<close> unless \<open>bs\<close> has exactly two bytes.\<close>

definition unpack_H :: "bytes \<Rightarrow> py_error + nat" where
  "unpack_H bs = (case bs of [hi, lo] \<Rightarrow> Inr (256 * unat hi + unat lo) | _ \<Rightarrow> Inl StructError)"

text \<open>\<^verbatim>\<open>sep.join(parts)\<close> and \<^verbatim>\<open>s.split(c)\<close>.\<close>

fun join :: "'a list \<Rightarrow> 'a list list \<Rightarrow> 'a list" where
  "join sep [] = []"
| "join sep [x] = x"
| "join sep (x # y # ys) = x @ sep @ join sep (y # ys)"

fun split_on :: "'a \<Rightarrow> 'a list \<Rightarrow> 'a list list" where
  "split_on c [] = [[]]"
| "split_on c (x # xs) =
     (if x = c then [] # split_on c xs
      else (case split_on c xs of [] \<Rightarrow> [[x]] | w # ws \<Rightarrow> (x # w) # ws))"

text \<open>\<^verbatim>\<open>str(n)\<close> of a non-negative integer.\<close>

fun str_nat :: "nat \<Rightarrow> string" where
  "str_nat n =
     (if n < 10 then [''0123456789'' ! n]
      else str_nat (n div 10) @ [''0123456789'' ! (n mod 10)])"

declare str_nat.simps [simp del]

text \<open>\<^verbatim>\<open>s.encode('ascii')\<close> raises on a code point from 128 on;
  \<^verbatim>\<open>bs.decode('ascii', errors='ignore')\<close> drops every byte from 128 on.\<close>

definition encode_ascii :: "string \<Rightarrow> py_error + bytes" where
  "encode_ascii s =
     (if list_all (\<lambda>c. (of_char c :: nat) < 128) s
      then Inr (map (\<lambda>c. of_nat (of_char c)) s)
      else Inl UnicodeEncodeError)"

definition decode_ascii_ignore :: "bytes \<Rightarrow> string" where
  "decode_ascii_ignore bs = map (\<lambda>b. char_of (unat b)) (filter (\<lambda>b. unat b < 128) bs)"

text \<open>\<^verbatim>\<open>bs.hex()\<close>: two lower-case digits per byte.\<close>

definition hex :: "bytes \<Rightarrow> string" where
  "hex bs = concat (map (\<lambda>b. [''0123456789abcdef'' ! (unat b div 16),
                                ''0123456789abcdef'' ! (unat b mod 16)]) bs)"

text \<open>\<^verbatim>\<open>packet.find(sub)\<close>: the first index where \<open>sub\<close> occurs, \<open>None\<close> for \<open>-1\<close>.\<close>

fun find_sub :: "'a list \<Rightarrow> 'a list \<Rightarrow> nat option" where
  "find_sub [] sub = (if sub = [] then Some 0 else None)"
| "find_sub (x # xs) sub =
     (if take (length sub) (x # xs) = sub then Some 0 else map_option Suc (find_sub xs sub))"

section \<open>packet\_builder.py\<close>

definition BUILDER_RECORD_TYPES :: "(string \<times> nat) list" where
  "BUILDER_RECORD_TYPES =
     [(''A'', 1), (''NS'', 2), (''CNAME'', 5), (''PTR'', 12), (''MX'', 15), (''TXT'', 16),
      (''AAAA'', 28)]"

definition CLASS_IN :: nat where
  "CLASS_IN = 1"

text \<open>\<^verbatim>\<open>_build_header\<close>: the id is \<^verbatim>\<open>transaction_id & 0xFFFF\<close>, the flags \<open>0x0100\<close>.\<close>

definition build_header :: "int \<Rightarrow> bytes" where
  "build_header transaction_id =
     pack_H (nat (transaction_id AND 0xFFFF)) @ pack_H 0x0100 @ pack_H 1 @ pack_H 0 @
     pack_H 0 @ pack_H 0"

text \<open>The loop of \<^verbatim>\<open>_encode_domain_name\<close> over the labels, \<open>encoded\<close> its accumulator.\<close>

fun encode_labels :: "string list \<Rightarrow> bytes \<Rightarrow> py_error + bytes" where
  "encode_labels [] encoded = Inr encoded"
| "encode_labels (label # rest) encoded =
     (if label = [] then encode_labels rest encoded
      else if length label > 63 then Inl (LabelTooLong label)
      else (case encode_ascii label of
              Inl e \<Rightarrow> Inl e
            | Inr bs \<Rightarrow> encode_labels rest (encoded @ pack_B (length label) @ bs)))"

definition encode_domain_name :: "string \<Rightarrow> py_error + bytes" where
  "encode_domain_name domain =
     (if domain = [] \<or> length domain > 253 then Inl InvalidDomainNameLength
      else (case encode_labels (split_on CHR ''.'' domain) [] of
              Inl e \<Rightarrow> Inl e
            | Inr encoded \<Rightarrow> Inr (encoded @ [0])))"

definition build_question :: "string \<Rightarrow> string \<Rightarrow> py_error + bytes" where
  "build_question domain record_type =
     (case encode_domain_name domain of
        Inl e \<Rightarrow> Inl e
      | Inr qname \<Rightarrow>
          (case map_of BUILDER_RECORD_TYPES record_type of
             None \<Rightarrow> Inl KeyError
           | Some qtype \<Rightarrow> Inr (qname @ pack_H qtype @ pack_H CLASS_IN)))"

definition build_query :: "string \<Rightarrow> string \<Rightarrow> int \<Rightarrow> py_error + bytes" where
  "build_query domain record_type transaction_id =
     (if map_of BUILDER_RECORD_TYPES record_type = None
      then Inl (UnsupportedRecordType record_type)
      else (case build_question domain record_type of
              Inl e \<Rightarrow> Inl e
            | Inr question \<Rightarrow> Inr (build_header transaction_id @ question)))"

section \<open>packet\_parser.py\<close>

definition RECORD_TYPES :: "(nat \<times> string) list" where
  "RECORD_TYPES =
     [(1, ''A''), (2, ''NS''), (5, ''CNAME''), (12, ''PTR''), (15, ''MX''), (16, ''TXT''),
      (28, ''AAAA'')]"

definition RESPONSE_CODES :: "(nat \<times> string) list" where
  "RESPONSE_CODES =
     [(0, ''NOERROR''), (1, ''FORMERR''), (2, ''SERVFAIL''), (3, ''NXDOMAIN''), (4, ''NOTIMP''),
      (5, ''REFUSED'')]"

text \<open>\<^verbatim>\<open>RECORD_TYPES.get(t, f'TYPE{t}')\<close>.\<close>

definition record_type_name :: "nat \<Rightarrow> string" where
  "record_type_name t = (case map_of RECORD_TYPES t of Some s \<Rightarrow> s | None \<Rightarrow> ''TYPE'' @ str_nat t)"

text \<open>
  \<^verbatim>\<open>RESPONSE_CODES.get(header['rcode'], f'UNKNOWN({header["rcode"]}')\<close>: the default
  string of the source opens a parenthesis and does not close it.
\<close>

definition status_of_rcode :: "nat \<Rightarrow> string" where
  "status_of_rcode c =
     (case map_of RESPONSE_CODES c of Some s \<Rightarrow> s | None \<Rightarrow> ''UNKNOWN('' @ str_nat c)"

record header =
  h_id :: nat
  h_flags :: nat
  qdcount :: nat
  ancount :: nat
  nscount :: nat
  arcount :: nat
  qr :: nat
  opcode :: nat
  aa :: nat
  tc :: nat
  rd :: nat
  ra :: nat
  rcode :: nat

text \<open>\<^verbatim>\<open>_parse_header\<close>: six big-endian 16-bit fields, then the flag bits.\<close>

definition parse_header :: "bytes \<Rightarrow> nat \<Rightarrow> py_error + header \<times> nat" where
  "parse_header packet offset =
     (case slice packet offset (offset + 12) of
        [i1, i0, f1, f0, q1, q0, a1, a0, n1, n0, r1, r0] \<Rightarrow>
          (let flags = 256 * unat f1 + unat f0 in
           Inr (\<lparr> h_id = 256 * unat i1 + unat i0,
                  h_flags = flags,
                  qdcount = 256 * unat q1 + unat q0,
                  ancount = 256 * unat a1 + unat a0,
                  nscount = 256 * unat n1 + unat n0,
                  arcount = 256 * unat r1 + unat r0,
                  qr = drop_bit 15 flags AND 1,
                  opcode = drop_bit 11 flags AND 15,
                  aa = drop_bit 10 flags AND 1,
                  tc = drop_bit 9 flags AND 1,
                  rd = drop_bit 8 flags AND 1,
                  ra = drop_bit 7 flags AND 1,
                  rcode = flags AND 15 \<rparr>, offset + 12))
      | _ \<Rightarrow> Inl StructError)"

text \<open>The value \<^verbatim>\<open>_parse_domain_name\<close> returns when its loop is left.\<close>

definition finish_name :: "string list \<Rightarrow> nat \<Rightarrow> nat \<Rightarrow> bool \<Rightarrow> string \<times> nat" where
  "finish_name labels offset original_offset jumped =
     (if labels \<noteq> [] then join ''.'' labels else ''.'',
      if jumped then original_offset else offset)"

text \<open>
  The \<^verbatim>\<open>while True\<close> loop of \<^verbatim>\<open>_parse_domain_name\<close>, its four local variables as
  arguments. The source counts no pointer hops, so the loop is a partial function.
\<close>

partial_function (option) parse_name_loop ::
  "bytes \<Rightarrow> nat \<Rightarrow> string list \<Rightarrow> nat \<Rightarrow> bool \<Rightarrow> (py_error + string \<times> nat) option" where
  "parse_name_loop packet offset labels original_offset jumped =
    (if offset \<ge> length packet
     then Some (Inr (finish_name labels offset original_offset jumped))
     else if unat (packet ! offset) AND 0xC0 = 0xC0 then
       (case unpack_H (slice packet offset (offset + 2)) of
          Inl e \<Rightarrow> Some (Inl e)
        | Inr v \<Rightarrow>
            parse_name_loop packet (v AND 0x3FFF) labels
              (if jumped then original_offset else offset + 2) True)
     else if unat (packet ! offset) = 0
       then Some (Inr (finish_name labels (offset + 1) original_offset jumped))
     else if offset + 1 + unat (packet ! offset) > length packet
       then Some (Inr (finish_name labels (offset + 1) original_offset jumped))
     else parse_name_loop packet (offset + 1 + unat (packet ! offset))
            (labels @ [decode_ascii_ignore
                         (slice packet (offset + 1) (offset + 1 + unat (packet ! offset)))])
            original_offset jumped)"

declare parse_name_loop.simps [code]

definition parse_domain_name :: "bytes \<Rightarrow> nat \<Rightarrow> (py_error + string \<times> nat) option" where
  "parse_domain_name packet offset = parse_name_loop packet offset [] offset False"

record question =
  q_name :: string
  q_type :: string
  q_class :: nat

text \<open>\<^verbatim>\<open>_parse_question\<close>: the name, then \<^verbatim>\<open>struct.unpack('!HH', packet[offset:offset+4])\<close>.\<close>

definition parse_question :: "bytes \<Rightarrow> nat \<Rightarrow> (py_error + question \<times> nat) option" where
  "parse_question packet offset =
     (case parse_domain_name packet offset of
        None \<Rightarrow> None
      | Some (Inl e) \<Rightarrow> Some (Inl e)
      | Some (Inr (name, offset1)) \<Rightarrow>
          (case slice packet offset1 (offset1 + 4) of
             [t1, t0, c1, c0] \<Rightarrow>
               Some (Inr (\<lparr> q_name = name,
                             q_type = record_type_name (256 * unat t1 + unat t0),
                             q_class = 256 * unat c1 + unat c0 \<rparr>, offset1 + 4))
           | _ \<Rightarrow> Some (Inl StructError)))"

text \<open>
  The text of a record's data. \<open>Inet6 bs\<close> stands for the string that the library call
  \<^verbatim>\<open>socket.inet_ntop(socket.AF_INET6, bs)\<close> returns for the sixteen bytes \<open>bs\<close>; every
  other text is spelled out.
\<close>

datatype rdata_text = Str string | Inet6 bytes

text \<open>\<^verbatim>\<open>socket.inet_ntoa\<close> of four bytes.\<close>

definition inet_ntoa :: "bytes \<Rightarrow> string" where
  "inet_ntoa bs = join ''.'' (map (\<lambda>b. str_nat (unat b)) bs)"

text \<open>The loop over the segments of a TXT record, \<open>text_parts\<close> its accumulator.\<close>

function txt_loop :: "bytes \<Rightarrow> nat \<Rightarrow> string list \<Rightarrow> string list" where
  "txt_loop rdata offset text_parts =
     (if offset < length rdata then
        (if offset + 1 + unat (rdata ! offset) \<le> length rdata
         then txt_loop rdata (offset + 1 + unat (rdata ! offset))
                (text_parts @ [decode_ascii_ignore
                    (slice rdata (offset + 1) (offset + 1 + unat (rdata ! offset)))])
         else text_parts)
      else text_parts)"
  by pat_completeness auto
termination
  by (relation "measure (\<lambda>(rdata, offset, text_parts). length rdata - offset)") auto

declare txt_loop.simps [simp del]

text \<open>
  \<^verbatim>\<open>_parse_domain_name(packet, -1)\<close>, the call made when \<^verbatim>\<open>packet.find\<close> finds nothing:
  the first round of the loop reads the last byte, \<^verbatim>\<open>packet[-1]\<close>, and the slice
  \<^verbatim>\<open>packet[-1:1]\<close> never has two bytes.
\<close>

definition parse_domain_name_minus1 :: "bytes \<Rightarrow> (py_error + string \<times> nat) option" where
  "parse_domain_name_minus1 packet =
     (if packet = [] then Some (Inl IndexError)
      else if unat (last packet) AND 0xC0 = 0xC0 then Some (Inl StructError)
      else if unat (last packet) = 0 then Some (Inr (finish_name [] 0 0 False))
      else if unat (last packet) > length packet then Some (Inr (finish_name [] 0 0 False))
      else parse_name_loop packet (unat (last packet))
             [decode_ascii_ignore (slice packet 0 (unat (last packet)))] 0 False)"

text \<open>
  \<^verbatim>\<open>_parse_record_data\<close>. Every exception raised inside is caught and answered with the
  hex dump; a name decode that does not return is not caught.
\<close>

definition parse_record_data :: "string \<Rightarrow> bytes \<Rightarrow> bytes \<Rightarrow> rdata_text option" where
  "parse_record_data record_type rdata packet =
     (if record_type = ''A'' then
        Some (Str (if length rdata = 4 then inet_ntoa rdata else hex rdata))
      else if record_type = ''AAAA'' then
        Some (if length rdata = 16 then Inet6 rdata else Str (hex rdata))
      else if record_type = ''NS'' \<or> record_type = ''CNAME'' \<or> record_type = ''PTR'' then
        (case (case find_sub packet rdata of
                 None \<Rightarrow> parse_domain_name_minus1 packet
               | Some start \<Rightarrow> parse_domain_name packet start) of
           None \<Rightarrow> None
         | Some (Inl e) \<Rightarrow> Some (Str (hex rdata))
         | Some (Inr (name, offset1)) \<Rightarrow> Some (Str name))
      else if record_type = ''MX'' then
        (if length rdata \<ge> 3 then
           (case unpack_H (take 2 rdata) of
              Inl e \<Rightarrow> Some (Str (hex rdata))
            | Inr priority \<Rightarrow>
                (case find_sub packet (drop 2 rdata) of
                   None \<Rightarrow> Some (Str (str_nat priority @ '' <unknown>''))
                 | Some domain_start \<Rightarrow>
                     (case parse_domain_name packet domain_start of
                        None \<Rightarrow> None
                      | Some (Inl e) \<Rightarrow> Some (Str (hex rdata))
                      | Some (Inr (name, offset1)) \<Rightarrow>
                          Some (Str (str_nat priority @ '' '' @ name)))))
         else Some (Str (hex rdata)))
      else if record_type = ''TXT'' then
        Some (Str ([CHR 0x22] @ concat (txt_loop rdata 0 []) @ [CHR 0x22]))
      else Some (Str (hex rdata)))"

record resource_record =
  rr_name :: string
  rr_type :: string
  rr_class :: nat
  rr_ttl :: nat
  rr_data :: rdata_text

text \<open>
  \<^verbatim>\<open>_parse_resource_record\<close>: the name, \<^verbatim>\<open>struct.unpack('!HHIH', packet[offset:offset+10])\<close>,
  then \<open>rdlength\<close> bytes of data (fewer when the packet ends first).
\<close>

definition parse_resource_record ::
  "bytes \<Rightarrow> nat \<Rightarrow> (py_error + resource_record \<times> nat) option" where
  "parse_resource_record packet offset =
     (case parse_domain_name packet offset of
        None \<Rightarrow> None
      | Some (Inl e) \<Rightarrow> Some (Inl e)
      | Some (Inr (name, offset1)) \<Rightarrow>
          (case slice packet offset1 (offset1 + 10) of
             [t1, t0, c1, c0, l3, l2, l1, l0, d1, d0] \<Rightarrow>
               (let rtype = 256 * unat t1 + unat t0;
                    rclass = 256 * unat c1 + unat c0;
                    ttl = 16777216 * unat l3 + 65536 * unat l2 + 256 * unat l1 + unat l0;
                    rdlength = 256 * unat d1 + unat d0;
                    offset2 = offset1 + 10;
                    rdata = slice packet offset2 (offset2 + rdlength);
                    record_type = record_type_name rtype
                in (case parse_record_data record_type rdata packet of
                      None \<Rightarrow> None
                    | Some parsed_data \<Rightarrow>
                        Some (Inr (\<lparr> rr_name = name, rr_type = record_type, rr_class = rclass,
                                      rr_ttl = ttl, rr_data = parsed_data \<rparr>,
                                   offset2 + rdlength))))
           | _ \<Rightarrow> Some (Inl StructError)))"

text \<open>
  The dictionary \<^verbatim>\<open>parse_response\<close> returns; \<^verbatim>\<open>DNSClient.query\<close> adds the last three
  keys, absent (\<open>None\<close>) before.
\<close>

record response =
  r_id :: nat
  status :: string
  r_flags :: nat
  questions :: "question list"
  answers :: "resource_record list"
  authority :: "resource_record list"
  additional :: "resource_record list"
  query_name :: "string option"
  query_type :: "string option"
  dns_server :: "string option"

text \<open>
  One \<^verbatim>\<open>for _ in range(count)\<close> loop of \<^verbatim>\<open>parse_response\<close>: each item parsed is
  appended to the section's list at once, so the list holds the items parsed so far when
  an item raises.
\<close>

fun parse_items ::
  "(nat \<Rightarrow> (py_error + 'a \<times> nat) option) \<Rightarrow> nat \<Rightarrow> nat \<Rightarrow> 'a list \<Rightarrow>
   ('a list \<times> (py_error + nat)) option" where
  "parse_items parse_one 0 offset items = Some (items, Inr offset)"
| "parse_items parse_one (Suc n) offset items =
     (case parse_one offset of
        None \<Rightarrow> None
      | Some (Inl e) \<Rightarrow> Some (items, Inl e)
      | Some (Inr (item, offset1)) \<Rightarrow> parse_items parse_one n offset1 (items @ [item]))"

text \<open>
  The \<^verbatim>\<open>try\<close> block of \<^verbatim>\<open>parse_response\<close>: the four sections in order. The handler
  \<^verbatim>\<open>except Exception\<close> drops the exception and the response built so far is returned.
\<close>

definition parse_sections :: "bytes \<Rightarrow> header \<Rightarrow> nat \<Rightarrow> response \<Rightarrow> response option" where
  "parse_sections packet hdr offset resp =
     (case parse_items (parse_question packet) (qdcount hdr) offset [] of
        None \<Rightarrow> None
      | Some (qs, Inl e) \<Rightarrow> Some (resp\<lparr>questions := qs\<rparr>)
      | Some (qs, Inr offset1) \<Rightarrow>
     (case parse_items (parse_resource_record packet) (ancount hdr) offset1 [] of
        None \<Rightarrow> None
      | Some (ans, Inl e) \<Rightarrow> Some (resp\<lparr>questions := qs, answers := ans\<rparr>)
      | Some (ans, Inr offset2) \<Rightarrow>
     (case parse_items (parse_resource_record packet) (nscount hdr) offset2 [] of
        None \<Rightarrow> None
      | Some (aus, Inl e) \<Rightarrow> Some (resp\<lparr>questions := qs, answers := ans, authority := aus\<rparr>)
      | Some (aus, Inr offset3) \<Rightarrow>
     (case parse_items (parse_resource_record packet) (arcount hdr) offset3 [] of
        None \<Rightarrow> None
      | Some (ads, r) \<Rightarrow>
          Some (resp\<lparr>questions := qs, answers := ans, authority := aus,
                      additional := ads\<rparr>)))))"

text \<open>The dictionary \<^verbatim>\<open>response\<close> as it is initialised from the header.\<close>

definition initial_response :: "header \<Rightarrow> response" where
  "initial_response hdr =
     \<lparr> r_id = h_id hdr, status = status_of_rcode (rcode hdr), r_flags = h_flags hdr,
       questions = [], answers = [], authority = [], additional = [], query_name = None,
       query_type = None, dns_server = None \<rparr>"

definition parse_response :: "bytes \<Rightarrow> int option \<Rightarrow> (py_error + response) option" where
  "parse_response packet expected_id =
     (if length packet < 12 then Some (Inl PacketTooShort)
      else (case parse_header packet 0 of
              Inl e \<Rightarrow> Some (Inl e)
            | Inr (hdr, offset) \<Rightarrow>
                (case expected_id of
                   Some e \<Rightarrow>
                     if int (h_id hdr) \<noteq> e
                     then Some (Inl (TransactionIdMismatch e (h_id hdr)))
                     else map_option Inr
                            (parse_sections packet hdr offset (initial_response hdr))
                 | None \<Rightarrow>
                     map_option Inr
                       (parse_sections packet hdr offset (initial_response hdr)))))"

section \<open>cache\_manager.py\<close>

text \<open>
  A Python \<^verbatim>\<open>dict\<close> keeps its keys in insertion order: an association list with no key
  twice. Assigning to a key that is present replaces the value where it stands, assigning
  to a new key appends it.
\<close>

fun dict_set :: "('k \<times> 'v) list \<Rightarrow> 'k \<Rightarrow> 'v \<Rightarrow> ('k \<times> 'v) list" where
  "dict_set [] k v = [(k, v)]"
| "dict_set ((k', v') # kvs) k v =
     (if k' = k then (k, v) # kvs else (k', v') # dict_set kvs k v)"

fun dict_del :: "('k \<times> 'v) list \<Rightarrow> 'k \<Rightarrow> ('k \<times> 'v) list" where
  "dict_del [] k = []"
| "dict_del ((k', v') # kvs) k = (if k' = k then kvs else (k', v') # dict_del kvs k)"

text \<open>
  The clock (\<^verbatim>\<open>time.time()\<close>) is read outside the model: every operation takes the
  reading \<open>now\<close> as an argument.
\<close>

record 'd cache_entry =
  data :: 'd
  expires :: real
  created :: real

record 'd cache_manager =
  max_size :: int
  cache :: "(string \<times> 'd cache_entry) list"
  hits :: nat
  misses :: nat
  evictions :: nat
  cleanups :: nat

text \<open>
  \<^verbatim>\<open>data.copy()\<close> is a method of the cached object: the cache is generic in it. A copy
  may allocate, so it runs in a world \<open>'w\<close> (the object store, or \<open>unit\<close> for plain values).
\<close>

type_synonym ('d, 'w) copier = "'d \<Rightarrow> 'w \<Rightarrow> 'd \<times> 'w"

definition init_cache :: "int \<Rightarrow> 'd cache_manager" where
  "init_cache n =
     \<lparr> max_size = n, cache = [], hits = 0, misses = 0, evictions = 0, cleanups = 0 \<rparr>"

definition get ::
  "('d, 'w) copier \<Rightarrow> real \<Rightarrow> string \<Rightarrow> 'w \<Rightarrow> 'd cache_manager \<Rightarrow>
   'd option \<times> 'w \<times> 'd cache_manager" where
  "get copy now key w cm =
     (case map_of (cache cm) key of
        None \<Rightarrow> (None, w, cm\<lparr>misses := misses cm + 1\<rparr>)
      | Some entry \<Rightarrow>
          if now \<ge> expires entry
          then (None, w, cm\<lparr>cache := dict_del (cache cm) key, misses := misses cm + 1\<rparr>)
          else (Some (fst (copy (data entry) w)), snd (copy (data entry) w),
                cm\<lparr>hits := hits cm + 1\<rparr>))"

text \<open>\<^verbatim>\<open>min(keys, key=created)\<close>: the first key among those of least \<open>created\<close>.\<close>

fun min_by_created ::
  "string \<times> 'd cache_entry \<Rightarrow> (string \<times> 'd cache_entry) list \<Rightarrow> string \<times> 'd cache_entry" where
  "min_by_created best [] = best"
| "min_by_created best (x # xs) =
     min_by_created (if created (snd x) < created (snd best) then x else best) xs"

definition evict_oldest :: "'d cache_manager \<Rightarrow> 'd cache_manager" where
  "evict_oldest cm =
     (case cache cm of
        [] \<Rightarrow> cm
      | e # es \<Rightarrow>
          cm\<lparr>cache := dict_del (cache cm) (fst (min_by_created e es)),
             evictions := evictions cm + 1\<rparr>)"

definition set_entry ::
  "('d, 'w) copier \<Rightarrow> real \<Rightarrow> string \<Rightarrow> 'd \<Rightarrow> int \<Rightarrow> 'w \<Rightarrow> 'd cache_manager \<Rightarrow>
   'w \<times> 'd cache_manager" where
  "set_entry copy now key d ttl w cm =
     (if ttl \<le> 0 then (w, cm)
      else
        (let cm1 = (if int (length (cache cm)) \<ge> max_size cm \<and> map_of (cache cm) key = None
                    then evict_oldest cm else cm)
         in (snd (copy d w),
             cm1\<lparr>cache := dict_set (cache cm1) key
                    \<lparr> data = fst (copy d w), expires = now + real_of_int ttl,
                      created = now \<rparr>\<rparr>)))"

definition is_cached :: "real \<Rightarrow> string \<Rightarrow> 'd cache_manager \<Rightarrow> bool \<times> 'd cache_manager" where
  "is_cached now key cm =
     (case map_of (cache cm) key of
        None \<Rightarrow> (False, cm)
      | Some entry \<Rightarrow>
          if now \<ge> expires entry then (False, cm\<lparr>cache := dict_del (cache cm) key\<rparr>)
          else (True, cm))"

definition get_ttl :: "real \<Rightarrow> string \<Rightarrow> 'd cache_manager \<Rightarrow> int \<times> 'd cache_manager" where
  "get_ttl now key cm =
     (case map_of (cache cm) key of
        None \<Rightarrow> (0, cm)
      | Some entry \<Rightarrow>
          if now \<ge> expires entry then (0, cm\<lparr>cache := dict_del (cache cm) key\<rparr>)
          else (\<lfloor>expires entry - now\<rfloor>, cm))"

definition delete :: "string \<Rightarrow> 'd cache_manager \<Rightarrow> bool \<times> 'd cache_manager" where
  "delete key cm =
     (if map_of (cache cm) key \<noteq> None then (True, cm\<lparr>cache := dict_del (cache cm) key\<rparr>)
      else (False, cm))"

definition clear_cache :: "'d cache_manager \<Rightarrow> 'd cache_manager" where
  "clear_cache cm = cm\<lparr>cache := [], hits := 0, misses := 0\<rparr>"

text \<open>\<^verbatim>\<open>_cleanup_expired\<close>, the body of the background thread's loop.\<close>

definition cleanup_expired :: "real \<Rightarrow> 'd cache_manager \<Rightarrow> nat \<times> 'd cache_manager" where
  "cleanup_expired now cm =
     (let expired_keys = map fst (filter (\<lambda>(key, entry). now \<ge> expires entry) (cache cm))
      in (length expired_keys,
          cm\<lparr>cache := fold (\<lambda>key c. dict_del c key) expired_keys (cache cm),
             cleanups := (if expired_keys \<noteq> [] then cleanups cm + 1 else cleanups cm)\<rparr>))"

text \<open>
  One entry of the \<^verbatim>\<open>entries\<close> object of an export file, as \<^verbatim>\<open>json.load\<close> gives it:
  either key may be missing.
\<close>

record 'd import_entry =
  ie_data :: "'d option"
  ie_ttl_remaining :: "int option"

text \<open>
  The loop of \<^verbatim>\<open>import_cache\<close>: every entry with a positive remaining TTL is assigned
  into the cache as it is; the size of the cache is not looked at.
\<close>

fun import_loop ::
  "real \<Rightarrow> (string \<times> 'd import_entry) list \<Rightarrow> 'd cache_manager \<Rightarrow>
   py_error option \<times> 'd cache_manager" where
  "import_loop now [] cm = (None, cm)"
| "import_loop now ((key, entry) # rest) cm =
     (let ttl_remaining = (case ie_ttl_remaining entry of None \<Rightarrow> 0 | Some t \<Rightarrow> t) in
      if ttl_remaining > 0 then
        (case ie_data entry of
           None \<Rightarrow> (Some KeyError, cm)
         | Some d \<Rightarrow>
             import_loop now rest
               (cm\<lparr>cache := dict_set (cache cm) key
                      \<lparr> data = d, expires = now + real_of_int ttl_remaining,
                        created = now \<rparr>\<rparr>))
      else import_loop now rest cm)"

text \<open>
  \<^verbatim>\<open>import_cache\<close>: \<open>loaded\<close> is what opening and parsing the file gave, an exception or
  the items of its \<^verbatim>\<open>entries\<close>. Any exception is raised again as "Failed to import cache".
\<close>

definition import_cache ::
  "real \<Rightarrow> py_error + (string \<times> 'd import_entry) list \<Rightarrow> 'd cache_manager \<Rightarrow>
   py_error option \<times> 'd cache_manager" where
  "import_cache now loaded cm =
     (case loaded of
        Inl e \<Rightarrow> (Some (ImportFailed e), cm)
      | Inr entries \<Rightarrow>
          (case import_loop now entries cm of
             (None, cm') \<Rightarrow> (None, cm')
           | (Some e, cm') \<Rightarrow> (Some (ImportFailed e), cm')))"

section \<open>dns\_client.py\<close>

text \<open>A response is a plain value here: copying it gives the same value.\<close>

definition copy_value :: "('d, unit) copier" where
  "copy_value d w = (d, w)"

text \<open>
  \<^verbatim>\<open>_get_minimum_ttl\<close>. Every record that \<^verbatim>\<open>parse_response\<close> builds has the key
  \<^verbatim>\<open>'ttl'\<close>, so the test \<^verbatim>\<open>'ttl' in record\<close> holds for each.
\<close>

definition get_minimum_ttl :: "response \<Rightarrow> nat" where
  "get_minimum_ttl resp =
     (case map rr_ttl (answers resp @ authority resp @ additional resp) of
        [] \<Rightarrow> 300
      | t # ts \<Rightarrow> fold min ts t)"

definition cache_key :: "string \<Rightarrow> string \<Rightarrow> string \<Rightarrow> string" where
  "cache_key domain record_type server = domain @ '':'' @ record_type @ '':'' @ server"

text \<open>
  \<^verbatim>\<open>DNSClient.query\<close>. The random transaction id and the transport
  (\<^verbatim>\<open>_send_udp_query\<close>, which returns the reply or raises) are arguments, and so are
  the two clock readings, taken in \<^verbatim>\<open>get\<close> and in \<^verbatim>\<open>set\<close>. The result is the
  value returned or the exception raised, with the cache manager as the call left it.
\<close>

definition query ::
  "real \<Rightarrow> real \<Rightarrow> int \<Rightarrow> (bytes \<Rightarrow> py_error + bytes) \<Rightarrow> string \<Rightarrow> string \<Rightarrow> string \<Rightarrow>
   response cache_manager option \<Rightarrow>
   ((py_error + response) \<times> response cache_manager option) option" where
  "query now_get now_set transaction_id send_udp_query domain record_type server cache_manager =
     (let looked = (case cache_manager of
                      None \<Rightarrow> (None, None)
                    | Some cm \<Rightarrow>
                        (case get copy_value now_get (cache_key domain record_type server) () cm of
                           (r, w, cm') \<Rightarrow> (r, Some cm')))
      in case fst looked of
           Some cached_response \<Rightarrow> Some (Inr cached_response, snd looked)
         | None \<Rightarrow>
             (case build_query domain record_type transaction_id of
                Inl e \<Rightarrow> Some (Inl e, snd looked)
              | Inr query_packet \<Rightarrow>
                  (case send_udp_query query_packet of
                     Inl e \<Rightarrow> Some (Inl e, snd looked)
                   | Inr response_packet \<Rightarrow>
                       (case parse_response response_packet (Some transaction_id) of
                          None \<Rightarrow> None
                        | Some (Inl e) \<Rightarrow> Some (Inl e, snd looked)
                        | Some (Inr parsed) \<Rightarrow>
                            (let resp = parsed\<lparr>query_name := Some domain,
                                                query_type := Some record_type,
                                                dns_server := Some server\<rparr>
                             in case snd looked of
                                  None \<Rightarrow> Some (Inr resp, None)
                                | Some cm \<Rightarrow>
                                    if status resp = ''NOERROR'' \<and> get_minimum_ttl resp > 0
                                    then Some (Inr resp,
                                           Some (snd (set_entry copy_value now_set
                                                   (cache_key domain record_type server) resp
                                                   (int (get_minimum_ttl resp)) () cm)))
                                    else Some (Inr resp, Some cm))))))"

section \<open>Objects and references\<close>

text \<open>
  Where aliasing matters, the dictionaries and lists of a response are objects in a
  store, named by their addresses. \<^verbatim>\<open>d.copy()\<close> makes a new dictionary with the same
  items: a value that is a reference is copied as the reference.
\<close>

datatype pyval = VStr string | VNum int | VRef nat

datatype pyobj = DictObj "(string \<times> pyval) list" | ListObj "pyval list"

type_synonym store = "pyobj list"

definition shallow_copy :: "(nat, store) copier" where
  "shallow_copy a st = (if a < length st then (length st, st @ [st ! a]) else (a, st))"

text \<open>\<^verbatim>\<open>d[k]\<close> of the dictionary at an address, and \<^verbatim>\<open>xs.append(v)\<close> of the list at one.\<close>

definition dict_item :: "store \<Rightarrow> nat \<Rightarrow> string \<Rightarrow> pyval option" where
  "dict_item st a k =
     (if a < length st then (case st ! a of DictObj kvs \<Rightarrow> map_of kvs k | ListObj xs \<Rightarrow> None)
      else None)"

definition list_items :: "store \<Rightarrow> pyval \<Rightarrow> pyval list option" where
  "list_items st v =
     (case v of
        VRef a \<Rightarrow>
          (if a < length st then (case st ! a of ListObj xs \<Rightarrow> Some xs | DictObj kvs \<Rightarrow> None)
           else None)
      | _ \<Rightarrow> None)"

definition list_append :: "store \<Rightarrow> pyval \<Rightarrow> pyval \<Rightarrow> store" where
  "list_append st v x =
     (case v of
        VRef a \<Rightarrow>
          (if a < length st then (case st ! a of ListObj xs \<Rightarrow> st[a := ListObj (xs @ [x])]
                                              | DictObj kvs \<Rightarrow> st)
           else st)
      | _ \<Rightarrow> st)"

section \<open>Notions used to state the properties\<close>

text \<open>
  The offset of the first compression pointer that a name decode starting at \<open>offset\<close>
  meets while it reads labels, \<open>None\<close> when the name ends before any pointer.
\<close>

function first_pointer :: "bytes \<Rightarrow> nat \<Rightarrow> nat option" where
  "first_pointer packet offset =
     (if offset \<ge> length packet then None
      else if unat (packet ! offset) AND 0xC0 = 0xC0 then Some offset
      else if unat (packet ! offset) = 0 then None
      else if offset + 1 + unat (packet ! offset) > length packet then None
      else first_pointer packet (offset + 1 + unat (packet ! offset)))"
  by pat_completeness auto
termination
  by (relation "measure (\<lambda>(packet, offset). length packet - offset)") auto

declare first_pointer.simps [simp del]

text \<open>
  A valid domain, in the words of the specification: dot-joined non-empty ASCII labels,
  each of 1 to 63 bytes, at most 253 bytes in all.
\<close>

definition label_ok :: "string \<Rightarrow> bool" where
  "label_ok l = (l \<noteq> [] \<and> length l \<le> 63 \<and> list_all (\<lambda>c. (of_char c :: nat) < 128) l)"

definition valid_domain :: "string \<Rightarrow> bool" where
  "valid_domain domain =
     (domain \<noteq> [] \<and> length domain \<le> 253 \<and> list_all label_ok (split_on CHR ''.'' domain))"

text \<open>The bytes that stand for a list of labels on the wire, before the final zero.\<close>

definition wire_labels :: "string list \<Rightarrow> bytes" where
  "wire_labels ls = concat (map (\<lambda>l. pack_B (length l) @ map (\<lambda>c. of_nat (of_char c)) l) ls)"

text \<open>
  \<open>items_at parse_one offset xs = Some offset'\<close>: parsing item after item from \<open>offset\<close>
  gives exactly the items \<open>xs\<close>, none of them failing, and ends at \<open>offset'\<close>.
\<close>

fun items_at :: "(nat \<Rightarrow> (py_error + 'a \<times> nat) option) \<Rightarrow> nat \<Rightarrow> 'a list \<Rightarrow> nat option" where
  "items_at parse_one offset [] = Some offset"
| "items_at parse_one offset (x # xs) =
     (case parse_one offset of
        Some (Inr (item, offset1)) \<Rightarrow>
          if item = x then items_at parse_one offset1 xs else None
      | _ \<Rightarrow> None)"

text \<open>
  The calls a client or the cleanup thread makes on a \<^verbatim>\<open>CacheManager\<close>, each with the
  reading of the clock it sees; \<^verbatim>\<open>import_cache\<close> is not among them.
\<close>

datatype 'd cache_op =
    OpSet real string 'd int
  | OpGet real string
  | OpIsCached real string
  | OpGetTtl real string
  | OpDelete string
  | OpClear
  | OpCleanup real

fun apply_op ::
  "('d, 'w) copier \<Rightarrow> 'd cache_op \<Rightarrow> 'w \<times> 'd cache_manager \<Rightarrow> 'w \<times> 'd cache_manager" where
  "apply_op copy (OpSet now key d ttl) (w, cm) = set_entry copy now key d ttl w cm"
| "apply_op copy (OpGet now key) (w, cm) = snd (get copy now key w cm)"
| "apply_op copy (OpIsCached now key) (w, cm) = (w, snd (is_cached now key cm))"
| "apply_op copy (OpGetTtl now key) (w, cm) = (w, snd (get_ttl now key cm))"
| "apply_op copy (OpDelete key) (w, cm) = (w, snd (delete key cm))"
| "apply_op copy OpClear (w, cm) = (w, clear_cache cm)"
| "apply_op copy (OpCleanup now) (w, cm) = (w, snd (cleanup_expired now cm))"

definition size_ok :: "'d cache_manager \<Rightarrow> bool" where
  "size_ok cm = (int (length (cache cm)) \<le> max_size cm)"

section \<open>Decoding names: pointers and termination\<close>

lemma slice_two:
  "Suc p < length packet \<Longrightarrow> slice packet p (Suc (Suc p)) = [packet ! p, packet ! Suc p]"
  by (simp add: slice_def take_Suc_conv_app_nth)

lemma parse_name_loop_self_pointer:
  assumes len: "p + 1 < length packet"
    and ptr: "unat (packet ! p) AND 0xC0 = 0xC0"
    and self: "(256 * unat (packet ! p) + unat (packet ! (p + 1))) AND 0x3FFF = p"
  shows "parse_name_loop packet p labels oo j = None"
proof -
  have "parse_name_loop pk off ls oo' j' = Some y \<Longrightarrow> pk = packet \<Longrightarrow> off = p \<Longrightarrow> False"
    for pk off ls oo' j' y
  proof (induction pk off ls oo' j' y rule: parse_name_loop.raw_induct[rotated 1, consumes 1])
    case (1 f pk off ls oo' j' y)
    from "1.prems" "1.hyps" len ptr self
    have "f packet p ls (if j' then oo' else p + 2) True = Some y"
      by (auto simp: slice_two unpack_H_def)
    then show ?case using "1.IH" by blast
  qed
  then have "parse_name_loop packet p labels oo j \<noteq> Some y" for y by blast
  then show ?thesis by (cases "parse_name_loop packet p labels oo j") auto
qed

lemma bit7_C0: "bit (0xC0::nat) 7"
  by (simp add: bit_iff_odd)

lemma nat_and_small: "n \<le> 63 \<Longrightarrow> (n::nat) AND 0xC0 \<noteq> 0xC0"
proof
  assume a: "n \<le> 63" and e: "n AND 0xC0 = 0xC0"
  have "bit (n AND 0xC0) 7" unfolding e by (rule bit7_C0)
  then have "bit n 7" by (simp only: bit_and_iff)
  then have o: "odd (n div 2^7)" unfolding bit_iff_odd .
  have z: "n div 2^7 = 0" using a by simp
  have "odd (0::nat)" using o unfolding z .
  then show False by simp
qed

lemma no_pointer_returns:
  assumes np: "list_all (\<lambda>b. unat b AND 0xC0 \<noteq> 0xC0) packet"
  shows "\<exists>r. parse_name_loop packet offset labels oo j = Some (Inr r)"
proof (induction "length packet - offset" arbitrary: offset labels rule: less_induct)
  case less
  show ?case
  proof (cases "offset \<ge> length packet")
    case True
    then show ?thesis by (subst parse_name_loop.simps) simp
  next
    case False
    then have lt: "offset < length packet" by simp
    with np have nptr: "unat (packet ! offset) AND 0xC0 \<noteq> 0xC0"
      by (simp add: list_all_length)
    show ?thesis
    proof (cases "unat (packet ! offset) = 0 \<or>
        offset + 1 + unat (packet ! offset) > length packet")
      case True
      with lt nptr show ?thesis by (subst parse_name_loop.simps) auto
    next
      case F2: False
      have "length packet - (offset + 1 + unat (packet ! offset)) < length packet - offset"
        using lt by simp
      from less[OF this] obtain r where
        "parse_name_loop packet (offset + 1 + unat (packet ! offset))
            (labels @ [decode_ascii_ignore
               (slice packet (offset + 1) (offset + 1 + unat (packet ! offset)))]) oo j =
         Some (Inr r)"
        by blast
      with lt nptr F2 show ?thesis by (subst parse_name_loop.simps) auto
    qed
  qed
qed

lemma loop_offset:
  "parse_name_loop packet offset labels oo j = Some y \<Longrightarrow>
   (\<forall>nm off'. y = Inr (nm, off') \<longrightarrow>
      (if j then off' = oo
       else (\<forall>p. first_pointer packet offset = Some p \<longrightarrow> off' = p + 2)))"
proof (induction packet offset labels oo j y
    rule: parse_name_loop.raw_induct[rotated 1, consumes 1])
  case (1 f packet offset labels oo j y)
  have IH: "f a b c d e = Some (Inr (nm, off')) \<Longrightarrow>
      (if e then off' = d else (\<forall>p. first_pointer a b = Some p \<longrightarrow> off' = Suc (Suc p)))"
    for a b c d e nm off'
    using "1.IH"[of a b c d e "Inr (nm, off')"] by simp
  show ?case
    using "1.hyps"
    apply (subst first_pointer.simps)
    apply (auto simp: finish_name_def split: if_splits sum.splits dest: IH)
    done
qed

lemma loop_jump_independent:
  "parse_name_loop packet offset labels oo j = Some y \<Longrightarrow>
   parse_name_loop packet offset labels oo' True = Some (map_sum id (\<lambda>(nm, fo). (nm, oo')) y)"
proof (induction packet offset labels oo j y arbitrary: oo'
    rule: parse_name_loop.raw_induct[rotated 1, consumes 1])
  case (1 f packet offset labels oo j y)
  show ?case
    using "1.hyps" "1.IH"
    apply (subst parse_name_loop.simps)
    apply (auto simp: finish_name_def id_def split: if_splits sum.splits)
    done
qed

lemma list_of_length_12:
  "length xs = 12 \<Longrightarrow>
   \<exists>i1 i0 f1 f0 q1 q0 a1 a0 n1 n0 r1 r0. xs = [i1, i0, f1, f0, q1, q0, a1, a0, n1, n0, r1, r0]"
  by (auto simp: length_Suc_conv numeral_eq_Suc)

lemma parse_header_12:
  assumes "12 \<le> length packet"
  shows "\<exists>hdr. parse_header packet 0 = Inr (hdr, 12)"
proof -
  define xs where "xs = take 12 packet"
  have "length xs = 12" using assms by (simp add: xs_def)
  from list_of_length_12[OF this] obtain i1 i0 f1 f0 q1 q0 a1 a0 n1 n0 r1 r0 where
    "xs = [i1, i0, f1, f0, q1, q0, a1, a0, n1, n0, r1, r0]" by blast
  then show ?thesis unfolding xs_def by (simp add: parse_header_def slice_def Let_def)
qed

lemma self_pointer_question:
  assumes "p + 1 < length packet"
    and "unat (packet ! p) AND 0xC0 = 0xC0"
    and "(256 * unat (packet ! p) + unat (packet ! (p + 1))) AND 0x3FFF = p"
  shows "parse_question packet p = None"
  using parse_name_loop_self_pointer[OF assms]
  by (simp add: parse_question_def parse_domain_name_def)

lemma self_pointer_response:
  assumes "13 < length packet"
    and "unat (packet ! 12) AND 0xC0 = 0xC0"
    and "(256 * unat (packet ! 12) + unat (packet ! 13)) AND 0x3FFF = 12"
    and "parse_header packet 0 = Inr (hdr, 12)" and "0 < qdcount hdr"
    and "expected_id = None \<or> expected_id = Some (int (h_id hdr))"
  shows "parse_response packet expected_id = None"
proof -
  have q: "parse_question packet 12 = None"
    using self_pointer_question[of 12 packet] assms(1-3) by simp
  obtain n where n: "qdcount hdr = Suc n" using assms(5) by (cases "qdcount hdr") auto
  have "parse_sections packet hdr 12 r = None" for r
    by (simp add: parse_sections_def n q)
  then show ?thesis using assms(1,4,6)
    by (auto simp: parse_response_def)
qed

text \<open>
  Claim C1. Decoding a name is to bound the number of pointer hops and to fail with
  a compression-loop error on a pointer chain that references itself. The source has no
  bound and no such error: the loop follows every pointer it reads. What holds instead:
  a name decode returns on every packet that has no pointer byte at all, and a pointer
  whose target is its own offset makes the decode never return; so does
  \<^verbatim>\<open>parse_response\<close> on a packet (of matching or unchecked id) whose first question
  starts with such a pointer.
\<close>

theorem name_decode_unbounded:
  "(list_all (\<lambda>b. unat b AND 0xC0 \<noteq> 0xC0) packet \<longrightarrow>
      (\<exists>r. parse_domain_name packet offset = Some (Inr r))) \<and>
   (p + 1 < length packet \<and> unat (packet ! p) AND 0xC0 = 0xC0 \<and>
    (256 * unat (packet ! p) + unat (packet ! (p + 1))) AND 0x3FFF = p \<longrightarrow>
      parse_domain_name packet p = None \<and>
      (\<forall>hdr expected_id.
          p = 12 \<and> parse_header packet 0 = Inr (hdr, 12) \<and> 0 < qdcount hdr \<and>
          (expected_id = None \<or> expected_id = Some (int (h_id hdr))) \<longrightarrow>
          parse_response packet expected_id = None))"
proof (intro conjI impI allI)
  assume "list_all (\<lambda>b. unat b AND 0xC0 \<noteq> 0xC0) packet"
  then show "\<exists>r. parse_domain_name packet offset = Some (Inr r)"
    unfolding parse_domain_name_def by (rule no_pointer_returns)
next
  assume a: "p + 1 < length packet \<and> unat (packet ! p) AND 0xC0 = 0xC0 \<and>
    (256 * unat (packet ! p) + unat (packet ! (p + 1))) AND 0x3FFF = p"
  then show "parse_domain_name packet p = None"
    unfolding parse_domain_name_def by (intro parse_name_loop_self_pointer) simp_all
  fix hdr expected_id
  assume b: "p = 12 \<and> parse_header packet 0 = Inr (hdr, 12) \<and> 0 < qdcount hdr \<and>
          (expected_id = None \<or> expected_id = Some (int (h_id hdr)))"
  show "parse_response packet expected_id = None"
    using a b by (intro self_pointer_response[of packet hdr]) simp_all
qed


text \<open>
  The theorem at two packets: a question for \<open>com\<close> without pointers, and a question
  whose name is the pointer \<open>C0 0C\<close>, at offset 12, to offset 12.
\<close>

theorem name_decode_unbounded_witness:
  "list_all (\<lambda>b::byte. unat b AND 0xC0 \<noteq> 0xC0)
     [0x12, 0x34, 0x81, 0x80, 0, 1, 0, 0, 0, 0, 0, 0, 3, 0x63, 0x6f, 0x6d, 0, 0, 1, 0, 1] \<and>
   (\<exists>r. parse_domain_name
     [0x12, 0x34, 0x81, 0x80, 0, 1, 0, 0, 0, 0, 0, 0, 3, 0x63, 0x6f, 0x6d, 0, 0, 1, 0, 1] 12 =
       Some (Inr r)) \<and>
   parse_domain_name [0x12, 0x34, 0x81, 0x80, 0, 1, 0, 0, 0, 0, 0, 0, 0xC0, 0x0C, 0, 1, 0, 1] 12 = None \<and>
   parse_response [0x12, 0x34, 0x81, 0x80, 0, 1, 0, 0, 0, 0, 0, 0, 0xC0, 0x0C, 0, 1, 0, 1]
     (Some 0x1234) = None"
  using name_decode_unbounded[of
      "[0x12, 0x34, 0x81, 0x80, 0, 1, 0, 0, 0, 0, 0, 0, 3, 0x63, 0x6f, 0x6d, 0, 0, 1, 0, 1]"
      12 0]
    name_decode_unbounded[of
      "[0x12, 0x34, 0x81, 0x80, 0, 1, 0, 0, 0, 0, 0, 0, 0xC0, 0x0C, 0, 1, 0, 1]" 0 12]
  by (simp add: parse_header_def slice_def)


text \<open>
  Against the claim as it is stated: on a packet whose question name is a pointer to
  itself, \<^verbatim>\<open>parse_response\<close> does not fail with any error; it does not return.
\<close>

theorem self_pointer_never_fails:
  "parse_response [0xAB, 0xCD, 0x81, 0x80, 0, 1, 0, 0, 0, 0, 0, 0, 0xC0, 0x0C, 0, 1, 0, 1] None
     = None"
proof -
  obtain hdr where h: "parse_header
      [0xAB, 0xCD, 0x81, 0x80, 0, 1, 0, 0, 0, 0, 0, 0, 0xC0, 0x0C, 0, 1, 0, 1] 0 = Inr (hdr, 12)"
    and q: "qdcount hdr = 1"
    by (simp add: parse_header_def slice_def)
  show ?thesis by (rule self_pointer_response[OF _ _ _ h]) (simp_all add: q)
qed

lemmas eval_name = parse_domain_name_def parse_name_loop.simps slice_def unpack_H_def
  finish_name_def decode_ascii_ignore_def char_of_def bit_0

lemma pointer_step:
  assumes "p + 1 < length packet" and "unat (packet ! p) AND 0xC0 = 0xC0"
  shows "parse_name_loop packet p labels oo j =
     parse_name_loop packet ((256 * unat (packet ! p) + unat (packet ! (p + 1))) AND 0x3FFF)
       labels (if j then oo else p + 2) True"
  using assms by (subst parse_name_loop.simps) (simp add: slice_two unpack_H_def)


text \<open>
  Claim C9. When a name decode meets a compression pointer, the offset it returns is the
  offset of the first pointer met plus 2, however many pointers are followed after it;
  and a name that is just a pointer decodes to the name found at the pointer's target,
  the decode returning whenever the decode at the target does.
\<close>

theorem pointer_resumption_offset:
  "(parse_domain_name packet offset = Some (Inr (name, offset')) \<and>
    first_pointer packet offset = Some p \<longrightarrow> offset' = p + 2) \<and>
   (q + 1 < length packet \<and> unat (packet ! q) AND 0xC0 = 0xC0 \<and>
    (256 * unat (packet ! q) + unat (packet ! (q + 1))) AND 0x3FFF = target \<and>
    parse_domain_name packet target = Some (Inr (name', offset_t)) \<longrightarrow>
      parse_domain_name packet q = Some (Inr (name', q + 2)))"
proof (intro conjI impI)
  assume "parse_domain_name packet offset = Some (Inr (name, offset')) \<and>
    first_pointer packet offset = Some p"
  then show "offset' = p + 2"
    using loop_offset[of packet offset "[]" offset False "Inr (name, offset')"]
    by (simp add: parse_domain_name_def)
next
  assume a: "q + 1 < length packet \<and> unat (packet ! q) AND 0xC0 = 0xC0 \<and>
    (256 * unat (packet ! q) + unat (packet ! (q + 1))) AND 0x3FFF = target \<and>
    parse_domain_name packet target = Some (Inr (name', offset_t))"
  then have "parse_name_loop packet target [] (q + 2) True = Some (Inr (name', q + 2))"
    using loop_jump_independent[of packet target "[]" target False "Inr (name', offset_t)" "q + 2"]
    by (simp add: parse_domain_name_def)
  with a show "parse_domain_name packet q = Some (Inr (name', q + 2))"
    by (simp add: parse_domain_name_def pointer_step)
qed


text \<open>
  The theorem on a packet with \<open>example.com\<close> at offset 12, a pointer to 12 at offset 25,
  a pointer to 25 at offset 27, and at offset 29 the label \<open>www\<close> followed by a pointer
  to 27.
\<close>

theorem pointer_resumption_offset_witness:
  "parse_domain_name
     [0,0,0,0,0,0,0,0,0,0,0,0,
      7, 0x65, 0x78, 0x61, 0x6d, 0x70, 0x6c, 0x65, 3, 0x63, 0x6f, 0x6d, 0,
      0xC0, 12, 0xC0, 25, 3, 0x77, 0x77, 0x77, 0xC0, 27] 29 =
     Some (Inr (''www.example.com'', 35)) \<and>
   first_pointer
     [0,0,0,0,0,0,0,0,0,0,0,0,
      7, 0x65, 0x78, 0x61, 0x6d, 0x70, 0x6c, 0x65, 3, 0x63, 0x6f, 0x6d, 0,
      0xC0, 12, 0xC0, 25, 3, 0x77, 0x77, 0x77, 0xC0, 27] 29 = Some 33 \<and>
   parse_domain_name
     [0,0,0,0,0,0,0,0,0,0,0,0,
      7, 0x65, 0x78, 0x61, 0x6d, 0x70, 0x6c, 0x65, 3, 0x63, 0x6f, 0x6d, 0,
      0xC0, 12, 0xC0, 25, 3, 0x77, 0x77, 0x77, 0xC0, 27] 25 =
     Some (Inr (''example.com'', 27)) \<and>
   parse_domain_name
     [0,0,0,0,0,0,0,0,0,0,0,0,
      7, 0x65, 0x78, 0x61, 0x6d, 0x70, 0x6c, 0x65, 3, 0x63, 0x6f, 0x6d, 0,
      0xC0, 12, 0xC0, 25, 3, 0x77, 0x77, 0x77, 0xC0, 27] 27 =
     Some (Inr (''example.com'', 29))"
proof -
  let ?pk = "[0,0,0,0,0,0,0,0,0,0,0,0,
      7, 0x65, 0x78, 0x61, 0x6d, 0x70, 0x6c, 0x65, 3, 0x63, 0x6f, 0x6d, 0,
      0xC0, 12, 0xC0, 25, 3, 0x77, 0x77, 0x77, 0xC0, 27] :: bytes"
  have a: "parse_domain_name ?pk 29 = Some (Inr (''www.example.com'', 35))"
    by (simp add: eval_name)
  have b: "first_pointer ?pk 29 = Some 33"
    by (simp add: first_pointer.simps)
  have c: "parse_domain_name ?pk 25 = Some (Inr (''example.com'', 27))"
    by (simp add: eval_name)
  have "35 = (33::nat) + 2"
    using pointer_resumption_offset[of ?pk 29 "''www.example.com''" 35 33 0 0 "''x''" 0] a b
    by blast
  moreover have "parse_domain_name ?pk 27 = Some (Inr (''example.com'', 27 + 2))"
    using pointer_resumption_offset[of ?pk 0 "''x''" 0 0 27 25 "''example.com''" 27] c
    by simp
  ultimately show ?thesis using a b c by simp
qed

section \<open>Encoding a name and decoding it again\<close>

lemma unat_byte_of_nat: "n < 256 \<Longrightarrow> unat (of_nat n :: byte) = n"
  by (simp add: unat_of_nat take_bit_nat_eq_self_iff)

lemma decode_encode_ascii:
  "list_all (\<lambda>c. (of_char c :: nat) < 128) l \<Longrightarrow>
   decode_ascii_ignore (map (\<lambda>c. of_nat (of_char c)) l) = l"
  by (induction l) (simp_all add: decode_ascii_ignore_def unat_byte_of_nat)

lemma encode_labels_wire:
  "list_all label_ok ls \<Longrightarrow> encode_labels ls acc = Inr (acc @ wire_labels ls)"
  by (induction ls arbitrary: acc) (simp_all add: wire_labels_def label_ok_def encode_ascii_def)

lemma join_Cons_Cons: "join sep ((x # w) # ws) = x # join sep (w # ws)"
  by (cases ws) auto

lemma join_split_on: "join [c] (split_on c s) = s"
proof (induction s)
  case Nil
  then show ?case by simp
next
  case (Cons x xs)
  then show ?case
    by (cases "split_on c xs") (auto simp: join_Cons_Cons split: list.splits)
qed

lemma split_on_nonempty: "split_on c s \<noteq> []"
  by (induction s) (auto split: list.splits)

lemma wire_labels_Cons:
  "wire_labels (l # ls) = of_nat (length l) # map (\<lambda>c. of_nat (of_char c)) l @ wire_labels ls"
  by (simp add: wire_labels_def pack_B_def)

lemma wire_labels_Nil: "wire_labels [] = []"
  by (simp add: wire_labels_def)

lemma slice_middle: "slice (xs @ ys @ zs) (length xs) (length xs + length ys) = ys"
  by (simp add: slice_def)

lemma parse_wire:
  "list_all label_ok ls \<Longrightarrow>
   parse_name_loop (pre @ wire_labels ls @ 0 # post) (length pre) labels0 oo j =
   Some (Inr (finish_name (labels0 @ ls) (length pre + length (wire_labels ls) + 1) oo j))"
proof (induction ls arbitrary: pre labels0)
  case Nil
  show ?case
    by (subst parse_name_loop.simps) (simp add: wire_labels_Nil)
next
  case (Cons l ls)
  let ?lb = "map (\<lambda>c. of_nat (of_char c)) l :: bytes"
  let ?n = "of_nat (length l) :: byte"
  let ?pre' = "pre @ ?n # ?lb"
  let ?packet = "pre @ wire_labels (l # ls) @ 0 # post"
  from Cons.prems have rest: "list_all label_ok ls" and lok: "label_ok l"
    by simp_all
  from lok have ok: "l \<noteq> []" "length l \<le> 63"
    "list_all (\<lambda>c. (of_char c :: nat) < 128) l"
    by (simp_all add: label_ok_def)
  have pk: "?packet = ?pre' @ wire_labels ls @ 0 # post"
    by (simp add: wire_labels_Cons)
  have byte: "unat (?packet ! length pre) = length l"
    using ok(2) by (simp add: wire_labels_Cons unat_byte_of_nat)
  have sl: "slice ?packet (Suc (length pre)) (Suc (length pre + length l)) = ?lb"
    using slice_middle[of "pre @ [?n]" ?lb "wire_labels ls @ 0 # post"]
    by (simp add: wire_labels_Cons)
  have len: "length pre + 1 + length l \<le> length ?packet" "length pre < length ?packet"
    by (simp_all add: wire_labels_Cons)
  have step: "parse_name_loop ?packet (length pre) labels0 oo j =
      parse_name_loop ?packet (length pre + 1 + length l) (labels0 @ [l]) oo j"
    apply (subst parse_name_loop.simps)
    using ok len nat_and_small[OF ok(2)]
    apply (simp add: byte sl decode_encode_ascii)
    done
  have "parse_name_loop ?packet (length ?pre') (labels0 @ [l]) oo j =
      Some (Inr (finish_name ((labels0 @ [l]) @ ls)
        (length ?pre' + length (wire_labels ls) + 1) oo j))"
    unfolding pk by (rule Cons.IH[OF rest])
  then show ?case unfolding step by (simp add: wire_labels_Cons add.assoc)
qed

lemma length_wire_labels:
  "ls \<noteq> [] \<Longrightarrow> length (wire_labels ls) = Suc (length (join [c] ls))"
proof (induction ls)
  case Nil
  then show ?case by simp
next
  case (Cons l ls)
  show ?case
  proof (cases ls)
    case Nil
    then show ?thesis by (simp add: wire_labels_Cons wire_labels_Nil)
  next
    case (Cons y ys)
    with Cons.IH show ?thesis by (simp add: wire_labels_Cons)
  qed
qed

lemma length_pack_H: "length (pack_H v) = 2"
  by (simp add: pack_H_def)

lemma length_build_header: "length (build_header t) = 12"
  by (simp add: build_header_def length_pack_H)


text \<open>
  Claim C4. For every valid domain and every supported record type, \<^verbatim>\<open>build_query\<close>
  returns a packet, and decoding the name at offset 12 of that packet (the question
  section) returns the domain itself, with the offset just after the encoded name.
\<close>

theorem encode_decode_round_trip:
  assumes "valid_domain domain" and "map_of BUILDER_RECORD_TYPES record_type = Some qtype"
  shows "\<exists>packet. build_query domain record_type transaction_id = Inr packet \<and>
           parse_domain_name packet 12 = Some (Inr (domain, 12 + length domain + 2))"
proof -
  let ?ls = "split_on CHR ''.'' domain"
  from assms(1) have ok: "list_all label_ok ?ls" and len: "length domain \<le> 253" "domain \<noteq> []"
    by (simp_all add: valid_domain_def)
  have ne: "?ls \<noteq> []" by (rule split_on_nonempty)
  have j: "join ''.'' ?ls = domain" using join_split_on[of "CHR ''.''" domain] by simp
  have lw: "length (wire_labels ?ls) = Suc (length domain)"
    using length_wire_labels[OF ne, of "CHR ''.''"] j by simp
  let ?post = "pack_H qtype @ pack_H CLASS_IN"
  let ?packet = "build_header transaction_id @ wire_labels ?ls @ 0 # ?post"
  have bq: "build_query domain record_type transaction_id = Inr ?packet"
    using len assms(2)
    by (simp add: build_query_def build_question_def encode_domain_name_def
        encode_labels_wire[OF ok])
  have "parse_name_loop ?packet (length (build_header transaction_id)) [] 12 False =
      Some (Inr (finish_name ([] @ ?ls)
        (length (build_header transaction_id) + length (wire_labels ?ls) + 1) 12 False))"
    by (rule parse_wire[OF ok])
  then have "parse_domain_name ?packet 12 = Some (Inr (domain, 12 + length domain + 2))"
    using ne j lw by (simp add: parse_domain_name_def length_build_header finish_name_def)
  with bq show ?thesis by blast
qed


text \<open>The theorem at \<open>example.com\<close>, type A, transaction id \<open>0x1234\<close>.\<close>

theorem encode_decode_round_trip_witness:
  "valid_domain ''example.com'' \<and>
   map_of BUILDER_RECORD_TYPES ''A'' = Some 1 \<and>
   build_query ''example.com'' ''A'' 0x1234 =
     Inr [0x12, 0x34, 1, 0, 0, 1, 0, 0, 0, 0, 0, 0,
          7, 0x65, 0x78, 0x61, 0x6d, 0x70, 0x6c, 0x65, 3, 0x63, 0x6f, 0x6d, 0, 0, 1, 0, 1] \<and>
   parse_domain_name
     [0x12, 0x34, 1, 0, 0, 1, 0, 0, 0, 0, 0, 0,
      7, 0x65, 0x78, 0x61, 0x6d, 0x70, 0x6c, 0x65, 3, 0x63, 0x6f, 0x6d, 0, 0, 1, 0, 1] 12 =
     Some (Inr (''example.com'', 25))"
proof -
  have v: "valid_domain ''example.com''"
    by (simp add: valid_domain_def label_ok_def)
  have t: "map_of BUILDER_RECORD_TYPES ''A'' = Some 1"
    by (simp add: BUILDER_RECORD_TYPES_def)
  have b: "build_query ''example.com'' ''A'' 0x1234 =
     Inr [0x12, 0x34, 1, 0, 0, 1, 0, 0, 0, 0, 0, 0,
          7, 0x65, 0x78, 0x61, 0x6d, 0x70, 0x6c, 0x65, 3, 0x63, 0x6f, 0x6d, 0, 0, 1, 0, 1]"
    by (simp add: build_query_def build_question_def encode_domain_name_def
        BUILDER_RECORD_TYPES_def build_header_def pack_H_def pack_B_def encode_ascii_def
        CLASS_IN_def)
  from encode_decode_round_trip[OF v t, of "0x1234"] b v t show ?thesis by simp
qed

section \<open>Domains that cannot be encoded\<close>

lemma split_on_no_sep: "c \<notin> set l \<Longrightarrow> split_on c l = [l]"
  by (induction l) auto

lemma split_on_append_sep:
  "c \<notin> set l \<Longrightarrow> split_on c (l @ c # rest) = l # split_on c rest"
  by (induction l) auto

lemma encode_labels_too_long:
  "list_all (\<lambda>x. length x \<le> 63 \<and> list_all (\<lambda>c. (of_char c :: nat) < 128) x) pre \<Longrightarrow>
   63 < length l \<Longrightarrow> encode_labels (pre @ l # post) acc = Inl (LabelTooLong l)"
  by (induction pre arbitrary: acc) (auto simp: encode_ascii_def)

lemma a_not_dot: "CHR ''.'' \<notin> set (replicate n CHR ''a'')"
  by simp

lemma label_ok_replicate: "0 < n \<Longrightarrow> n \<le> 63 \<Longrightarrow> label_ok (replicate n CHR ''a'')"
  by (simp add: label_ok_def list_all_iff)


text \<open>
  Claim C5. A domain whose encoded form exceeds 253 bytes is to fail with the
  invalid-domain-name error, and a domain with a label of 64 bytes or more with the
  label-too-long error. The source tests the length of the domain string itself, before
  it looks at any label. What holds: with a supported record type, a domain string of
  more than 253 characters fails with the invalid-domain-name error; a domain of at most
  253 characters fails with the label-too-long error at its first label of more than 63
  characters, when the labels before it are ASCII labels of at most 63 characters.
\<close>

theorem domain_length_errors:
  "(map_of BUILDER_RECORD_TYPES record_type = Some qtype \<and> 253 < length domain \<longrightarrow>
      build_query domain record_type transaction_id = Inl InvalidDomainNameLength) \<and>
   (map_of BUILDER_RECORD_TYPES record_type = Some qtype \<and> length domain \<le> 253 \<and>
    split_on CHR ''.'' domain = pre @ l # post \<and>
    list_all (\<lambda>x. length x \<le> 63 \<and> list_all (\<lambda>c. (of_char c :: nat) < 128) x) pre \<and>
    63 < length l \<longrightarrow>
      build_query domain record_type transaction_id = Inl (LabelTooLong l))"
proof (intro conjI impI)
  assume "map_of BUILDER_RECORD_TYPES record_type = Some qtype \<and> 253 < length domain"
  then show "build_query domain record_type transaction_id = Inl InvalidDomainNameLength"
    by (simp add: build_query_def build_question_def encode_domain_name_def)
next
  assume a: "map_of BUILDER_RECORD_TYPES record_type = Some qtype \<and> length domain \<le> 253 \<and>
    split_on CHR ''.'' domain = pre @ l # post \<and>
    list_all (\<lambda>x. length x \<le> 63 \<and> list_all (\<lambda>c. (of_char c :: nat) < 128) x) pre \<and>
    63 < length l"
  then have "domain \<noteq> []" by (auto simp: Cons_eq_append_conv)
  with a show "build_query domain record_type transaction_id = Inl (LabelTooLong l)"
    by (simp add: build_query_def build_question_def encode_domain_name_def
        encode_labels_too_long)
qed


text \<open>
  The theorem at a domain of 254 characters, and at \<open>www.\<close>, 64 times \<open>a\<close>,
  \<open>.com\<close>.
\<close>

theorem domain_length_errors_witness:
  "build_query (replicate 250 CHR ''a'' @ ''.com'') ''A'' 1 = Inl InvalidDomainNameLength \<and>
   split_on CHR ''.'' (''www.'' @ replicate 64 CHR ''a'' @ ''.com'') =
     [''www''] @ replicate 64 CHR ''a'' # [''com''] \<and>
   build_query (''www.'' @ replicate 64 CHR ''a'' @ ''.com'') ''A'' 1 =
     Inl (LabelTooLong (replicate 64 CHR ''a''))"
proof -
  have t: "map_of BUILDER_RECORD_TYPES ''A'' = Some 1"
    by (simp add: BUILDER_RECORD_TYPES_def)
  have s: "split_on CHR ''.'' (''www.'' @ replicate 64 CHR ''a'' @ ''.com'') =
     [''www''] @ replicate 64 CHR ''a'' # [''com'']"
    using split_on_append_sep[OF a_not_dot, of 64 "''com''"] by simp
  have 1: "build_query (replicate 250 CHR ''a'' @ ''.com'') ''A'' 1 = Inl InvalidDomainNameLength"
    using domain_length_errors[of "''A''" 1 "replicate 250 CHR ''a'' @ ''.com''" 1 "[]" "[]" "[]"] t
    by simp
  have 2: "build_query (''www.'' @ replicate 64 CHR ''a'' @ ''.com'') ''A'' 1 =
     Inl (LabelTooLong (replicate 64 CHR ''a''))"
    using domain_length_errors[of "''A''" 1 "''www.'' @ replicate 64 CHR ''a'' @ ''.com''" 1
        "[''www'']" "replicate 64 CHR ''a''" "[''com'']"] t s
    by simp
  from 1 2 s show ?thesis by simp
qed


text \<open>
  Against the claim as it is stated. A domain of 253 characters in four labels (63, 63,
  63 and 61 times \<open>a\<close>) has an encoded form of 254 bytes before the final zero, and
  \<^verbatim>\<open>build_query\<close> returns a packet of 271 bytes for it. The domain of 250 times
  \<open>a\<close> and \<open>.com\<close> has a label of 250 bytes and fails with the invalid-domain-name
  error, not the label-too-long one.
\<close>

theorem long_encoding_accepted:
  "length (replicate 63 CHR ''a'' @ ''.'' @ replicate 63 CHR ''a'' @ ''.'' @
           replicate 63 CHR ''a'' @ ''.'' @ replicate 61 CHR ''a'') = 253 \<and>
   map_sum id length
     (encode_domain_name (replicate 63 CHR ''a'' @ ''.'' @ replicate 63 CHR ''a'' @ ''.'' @
           replicate 63 CHR ''a'' @ ''.'' @ replicate 61 CHR ''a'')) = Inr 255 \<and>
   map_sum id length
     (build_query (replicate 63 CHR ''a'' @ ''.'' @ replicate 63 CHR ''a'' @ ''.'' @
           replicate 63 CHR ''a'' @ ''.'' @ replicate 61 CHR ''a'') ''A'' 1) = Inr 271 \<and>
   build_query (replicate 250 CHR ''a'' @ ''.com'') ''A'' 1 = Inl InvalidDomainNameLength"
proof -
  let ?d = "replicate 63 CHR ''a'' @ ''.'' @ replicate 63 CHR ''a'' @ ''.'' @
           replicate 63 CHR ''a'' @ ''.'' @ replicate 61 CHR ''a''"
  let ?ls = "[replicate 63 CHR ''a'', replicate 63 CHR ''a'', replicate 63 CHR ''a'',
              replicate 61 CHR ''a'']"
  have s: "split_on CHR ''.'' ?d = ?ls"
    by (simp add: split_on_append_sep[OF a_not_dot] split_on_no_sep[OF a_not_dot])
  have ok: "list_all label_ok ?ls"
    by (simp add: label_ok_replicate)
  have lw: "length (wire_labels ?ls) = 254"
    by (simp add: wire_labels_Cons wire_labels_Nil)
  have e: "encode_domain_name ?d = Inr (wire_labels ?ls @ [0])"
  proof -
    have "\<not> (?d = [] \<or> length ?d > 253)" by simp
    then have "encode_domain_name ?d =
        (case encode_labels (split_on CHR ''.'' ?d) [] of
           Inl e \<Rightarrow> Inl e | Inr encoded \<Rightarrow> Inr (encoded @ [0]))"
      unfolding encode_domain_name_def by (rule if_not_P)
    also have "\<dots> = Inr (wire_labels ?ls @ [0])"
      unfolding s encode_labels_wire[OF ok] by simp
    finally show ?thesis .
  qed
  have b: "build_query ?d ''A'' 1 =
      Inr (build_header 1 @ (wire_labels ?ls @ [0]) @ pack_H 1 @ pack_H CLASS_IN)"
    unfolding build_query_def build_question_def e by (simp add: BUILDER_RECORD_TYPES_def)
  have 3: "build_query (replicate 250 CHR ''a'' @ ''.com'') ''A'' 1 = Inl InvalidDomainNameLength"
    by (simp add: build_query_def build_question_def encode_domain_name_def
        BUILDER_RECORD_TYPES_def)
  show ?thesis
    unfolding e b by (simp add: lw length_build_header length_pack_H 3)
qed

section \<open>Responses with a malformed section\<close>

lemma parse_items_complete:
  "items_at parse_one offset xs = Some offset' \<Longrightarrow>
   parse_items parse_one (length xs) offset acc = Some (acc @ xs, Inr offset')"
  by (induction xs arbitrary: offset acc)
    (auto split: option.splits sum.splits if_splits prod.splits)

lemma parse_items_fails:
  "items_at parse_one offset xs = Some offset' \<Longrightarrow> parse_one offset' = Some (Inl e) \<Longrightarrow>
   length xs < n \<Longrightarrow> parse_items parse_one n offset acc = Some (acc @ xs, Inl e)"
proof (induction xs arbitrary: offset acc n)
  case Nil
  then show ?case by (cases n) auto
next
  case (Cons x xs)
  then obtain m where "n = Suc m" by (cases n) auto
  with Cons show ?case
    by (auto split: option.splits sum.splits if_splits prod.splits)
qed

lemma parse_response_sections:
  assumes "12 \<le> length packet" and "parse_header packet 0 = Inr (hdr, 12)"
    and "expected_id = None \<or> expected_id = Some (int (h_id hdr))"
  shows "parse_response packet expected_id =
     map_option Inr (parse_sections packet hdr 12 (initial_response hdr))"
  using assms by (auto simp: parse_response_def initial_response_def)

lemmas eval_items = parse_question_def parse_resource_record_def parse_record_data_def
  record_type_name_def RECORD_TYPES_def inet_ntoa_def str_nat.simps Let_def eval_name

text \<open>
  Claim C6. For a packet of at least 12 bytes, with \<open>hdr\<close> its header and the expected
  id absent or equal to the header's, \<^verbatim>\<open>parse_response\<close> does not raise when a
  section fails to parse partway: it returns the response initialised from the header
  (id, status of the rcode, flags) with exactly the items decoded before the failure.
  Every packet of 12 bytes or more has a header (lemma \<open>parse_header_12\<close>). The four
  conjuncts are the four sections a failure can fall in: the questions \<open>qs\<close> decoded so
  far and the next one raising; all questions and the answers \<open>ans\<close> decoded so far; and
  so on for the authority and the additional records.
\<close>

theorem malformed_section_partial_response:
  assumes "12 \<le> length packet" and "parse_header packet 0 = Inr (hdr, 12)"
    and "expected_id = None \<or> expected_id = Some (int (h_id hdr))"
    and "items_at (parse_question packet) 12 qs = Some o1"
    and "items_at (parse_resource_record packet) o1 ans = Some o2"
    and "items_at (parse_resource_record packet) o2 aus = Some o3"
    and "items_at (parse_resource_record packet) o3 ads = Some o4"
  shows
    "(length qs < qdcount hdr \<and> parse_question packet o1 = Some (Inl e) \<longrightarrow>
        parse_response packet expected_id =
          Some (Inr ((initial_response hdr)\<lparr>questions := qs\<rparr>))) \<and>
     (length qs = qdcount hdr \<and> length ans < ancount hdr \<and>
      parse_resource_record packet o2 = Some (Inl e) \<longrightarrow>
        parse_response packet expected_id =
          Some (Inr ((initial_response hdr)\<lparr>questions := qs, answers := ans\<rparr>))) \<and>
     (length qs = qdcount hdr \<and> length ans = ancount hdr \<and> length aus < nscount hdr \<and>
      parse_resource_record packet o3 = Some (Inl e) \<longrightarrow>
        parse_response packet expected_id =
          Some (Inr ((initial_response hdr)
                  \<lparr>questions := qs, answers := ans, authority := aus\<rparr>))) \<and>
     (length qs = qdcount hdr \<and> length ans = ancount hdr \<and> length aus = nscount hdr \<and>
      length ads < arcount hdr \<and> parse_resource_record packet o4 = Some (Inl e) \<longrightarrow>
        parse_response packet expected_id =
          Some (Inr ((initial_response hdr)
                  \<lparr>questions := qs, answers := ans, authority := aus,
                    additional := ads\<rparr>)))"
proof -
  note ps = parse_response_sections[OF assms(1,2,3)]
  note cq = parse_items_complete[OF assms(4), of "[]"]
  note ca = parse_items_complete[OF assms(5), of "[]"]
  note cn = parse_items_complete[OF assms(6), of "[]"]
  have 1: "parse_response packet expected_id =
          Some (Inr ((initial_response hdr)\<lparr>questions := qs\<rparr>))"
    if "length qs < qdcount hdr" and "parse_question packet o1 = Some (Inl e)"
    using parse_items_fails[OF assms(4) that(2) that(1), of "[]"]
    by (simp add: ps parse_sections_def)
  have 2: "parse_response packet expected_id =
          Some (Inr ((initial_response hdr)\<lparr>questions := qs, answers := ans\<rparr>))"
    if "length qs = qdcount hdr" and "length ans < ancount hdr"
      and "parse_resource_record packet o2 = Some (Inl e)"
    using cq parse_items_fails[OF assms(5) that(3) that(2), of "[]"] that(1)
    by (simp add: ps parse_sections_def)
  have 3: "parse_response packet expected_id =
          Some (Inr ((initial_response hdr)
                  \<lparr>questions := qs, answers := ans, authority := aus\<rparr>))"
    if "length qs = qdcount hdr" and "length ans = ancount hdr"
      and "length aus < nscount hdr" and "parse_resource_record packet o3 = Some (Inl e)"
    using cq ca parse_items_fails[OF assms(6) that(4) that(3), of "[]"] that(1,2)
    by (simp add: ps parse_sections_def)
  have 4: "parse_response packet expected_id =
          Some (Inr ((initial_response hdr)
                  \<lparr>questions := qs, answers := ans, authority := aus,
                    additional := ads\<rparr>))"
    if "length qs = qdcount hdr" and "length ans = ancount hdr"
      and "length aus = nscount hdr" and "length ads < arcount hdr"
      and "parse_resource_record packet o4 = Some (Inl e)"
    using cq ca cn parse_items_fails[OF assms(7) that(5) that(4), of "[]"] that(1,2,3)
    by (simp add: ps parse_sections_def)
  from 1 2 3 4 show ?thesis by blast
qed

text \<open>
  The theorem at four packets with the question \<open>a A IN\<close>, records \<open>a A IN 300 1.2.3.4\<close>
  and a last item cut after three bytes: that item is the second question, the second
  answer, the first authority record, and the second additional record.
\<close>

theorem malformed_section_partial_response_witness:
  "parse_response
     [18, 52, 129, 128, 0, 2, 0, 0, 0, 0, 0, 0, 1, 97, 0, 0, 1, 0, 1, 192, 12, 0]
     (Some 4660) =
     Some (Inr \<lparr>r_id = 4660, status = ''NOERROR'', r_flags = 33152,
         questions = [\<lparr>q_name = ''a'', q_type = ''A'', q_class = 1\<rparr>],
         answers = [],
         authority = [],
         additional = [],
         query_name = None, query_type = None, dns_server = None\<rparr>) \<and>
   parse_response
     [18, 52, 129, 128, 0, 1, 0, 2, 0, 0, 0, 0, 1, 97, 0, 0, 1, 0, 1, 192, 12, 0, 1, 0, 1, 0, 0, 1, 44, 0, 4, 1, 2, 3, 4, 192, 12, 0]
     (Some 4660) =
     Some (Inr \<lparr>r_id = 4660, status = ''NOERROR'', r_flags = 33152,
         questions = [\<lparr>q_name = ''a'', q_type = ''A'', q_class = 1\<rparr>],
         answers = [\<lparr>rr_name = ''a'', rr_type = ''A'', rr_class = 1, rr_ttl = 300,
            rr_data = Str ''1.2.3.4''\<rparr>],
         authority = [],
         additional = [],
         query_name = None, query_type = None, dns_server = None\<rparr>) \<and>
   parse_response
     [18, 52, 129, 128, 0, 1, 0, 1, 0, 1, 0, 0, 1, 97, 0, 0, 1, 0, 1, 192, 12, 0, 1, 0, 1, 0, 0, 1, 44, 0, 4, 1, 2, 3, 4, 192, 12, 0]
     (Some 4660) =
     Some (Inr \<lparr>r_id = 4660, status = ''NOERROR'', r_flags = 33152,
         questions = [\<lparr>q_name = ''a'', q_type = ''A'', q_class = 1\<rparr>],
         answers = [\<lparr>rr_name = ''a'', rr_type = ''A'', rr_class = 1, rr_ttl = 300,
            rr_data = Str ''1.2.3.4''\<rparr>],
         authority = [],
         additional = [],
         query_name = None, query_type = None, dns_server = None\<rparr>) \<and>
   parse_response
     [18, 52, 129, 128, 0, 1, 0, 1, 0, 0, 0, 2, 1, 97, 0, 0, 1, 0, 1, 192, 12, 0, 1, 0, 1, 0, 0, 1, 44, 0, 4, 1, 2, 3, 4, 192, 12, 0, 1, 0, 1, 0, 0, 1, 44, 0, 4, 1, 2, 3, 4, 192, 12, 0]
     (Some 4660) =
     Some (Inr \<lparr>r_id = 4660, status = ''NOERROR'', r_flags = 33152,
         questions = [\<lparr>q_name = ''a'', q_type = ''A'', q_class = 1\<rparr>],
         answers = [\<lparr>rr_name = ''a'', rr_type = ''A'', rr_class = 1, rr_ttl = 300,
            rr_data = Str ''1.2.3.4''\<rparr>],
         authority = [],
         additional = [\<lparr>rr_name = ''a'', rr_type = ''A'', rr_class = 1, rr_ttl = 300,
            rr_data = Str ''1.2.3.4''\<rparr>],
         query_name = None, query_type = None, dns_server = None\<rparr>)"
proof -
  let ?p1 = "[18, 52, 129, 128, 0, 2, 0, 0, 0, 0, 0, 0, 1, 97, 0, 0, 1, 0, 1, 192, 12, 0] :: bytes"
  let ?h1 = "\<lparr>h_id = 4660, h_flags = 33152, qdcount = 2, ancount = 0, nscount = 0,
      arcount = 0, qr = 1, opcode = 0, aa = 0, tc = 0, rd = 1, ra = 1, rcode = 0\<rparr>"
  have h1: "parse_header ?p1 0 = Inr (?h1, 12)"
    by (simp add: parse_header_def slice_def)
  have q1: "parse_question ?p1 12 = Some (Inr (\<lparr>q_name = ''a'', q_type = ''A'', q_class = 1\<rparr>, 19))"
    by (simp add: eval_items)
  have f1: "parse_question ?p1 19 = Some (Inl StructError)"
    by (simp add: eval_items)
  have i1_1: "items_at (parse_question ?p1) 12 [\<lparr>q_name = ''a'', q_type = ''A'', q_class = 1\<rparr>] = Some 19"
    by (simp add: q1)
  have i1_2: "items_at (parse_resource_record ?p1) 19 [] = Some 19"
    by (simp add: q1)
  have i1_3: "items_at (parse_resource_record ?p1) 19 [] = Some 19"
    by (simp add: q1)
  have i1_4: "items_at (parse_resource_record ?p1) 19 [] = Some 19"
    by (simp add: q1)
  have c1: "parse_response ?p1 (Some 4660) =
     Some (Inr \<lparr>r_id = 4660, status = ''NOERROR'', r_flags = 33152,
         questions = [\<lparr>q_name = ''a'', q_type = ''A'', q_class = 1\<rparr>],
         answers = [],
         authority = [],
         additional = [],
         query_name = None, query_type = None, dns_server = None\<rparr>)"
    using malformed_section_partial_response[OF _ h1 _ i1_1 i1_2 i1_3 i1_4,
        of "Some 4660" StructError]
    by (simp add: f1 initial_response_def status_of_rcode_def RESPONSE_CODES_def)
  let ?p2 = "[18, 52, 129, 128, 0, 1, 0, 2, 0, 0, 0, 0, 1, 97, 0, 0, 1, 0, 1, 192, 12, 0, 1, 0, 1, 0, 0, 1, 44, 0, 4, 1, 2, 3, 4, 192, 12, 0] :: bytes"
  let ?h2 = "\<lparr>h_id = 4660, h_flags = 33152, qdcount = 1, ancount = 2, nscount = 0,
      arcount = 0, qr = 1, opcode = 0, aa = 0, tc = 0, rd = 1, ra = 1, rcode = 0\<rparr>"
  have h2: "parse_header ?p2 0 = Inr (?h2, 12)"
    by (simp add: parse_header_def slice_def)
  have q2: "parse_question ?p2 12 = Some (Inr (\<lparr>q_name = ''a'', q_type = ''A'', q_class = 1\<rparr>, 19))"
    by (simp add: eval_items)
  have r2_0: "parse_resource_record ?p2 19 = Some (Inr (\<lparr>rr_name = ''a'', rr_type = ''A'', rr_class = 1, rr_ttl = 300,
            rr_data = Str ''1.2.3.4''\<rparr>, 35))"
    by (simp add: eval_items)
  have f2: "parse_resource_record ?p2 35 = Some (Inl StructError)"
    by (simp add: eval_items)
  have i2_1: "items_at (parse_question ?p2) 12 [\<lparr>q_name = ''a'', q_type = ''A'', q_class = 1\<rparr>] = Some 19"
    by (simp add: q2 r2_0)
  have i2_2: "items_at (parse_resource_record ?p2) 19 [\<lparr>rr_name = ''a'', rr_type = ''A'', rr_class = 1, rr_ttl = 300,
            rr_data = Str ''1.2.3.4''\<rparr>] = Some 35"
    by (simp add: q2 r2_0)
  have i2_3: "items_at (parse_resource_record ?p2) 35 [] = Some 35"
    by (simp add: q2 r2_0)
  have i2_4: "items_at (parse_resource_record ?p2) 35 [] = Some 35"
    by (simp add: q2 r2_0)
  have c2: "parse_response ?p2 (Some 4660) =
     Some (Inr \<lparr>r_id = 4660, status = ''NOERROR'', r_flags = 33152,
         questions = [\<lparr>q_name = ''a'', q_type = ''A'', q_class = 1\<rparr>],
         answers = [\<lparr>rr_name = ''a'', rr_type = ''A'', rr_class = 1, rr_ttl = 300,
            rr_data = Str ''1.2.3.4''\<rparr>],
         authority = [],
         additional = [],
         query_name = None, query_type = None, dns_server = None\<rparr>)"
    using malformed_section_partial_response[OF _ h2 _ i2_1 i2_2 i2_3 i2_4,
        of "Some 4660" StructError]
    by (simp add: f2 initial_response_def status_of_rcode_def RESPONSE_CODES_def)
  let ?p3 = "[18, 52, 129, 128, 0, 1, 0, 1, 0, 1, 0, 0, 1, 97, 0, 0, 1, 0, 1, 192, 12, 0, 1, 0, 1, 0, 0, 1, 44, 0, 4, 1, 2, 3, 4, 192, 12, 0] :: bytes"
  let ?h3 = "\<lparr>h_id = 4660, h_flags = 33152, qdcount = 1, ancount = 1, nscount = 1,
      arcount = 0, qr = 1, opcode = 0, aa = 0, tc = 0, rd = 1, ra = 1, rcode = 0\<rparr>"
  have h3: "parse_header ?p3 0 = Inr (?h3, 12)"
    by (simp add: parse_header_def slice_def)
  have q3: "parse_question ?p3 12 = Some (Inr (\<lparr>q_name = ''a'', q_type = ''A'', q_class = 1\<rparr>, 19))"
    by (simp add: eval_items)
  have r3_0: "parse_resource_record ?p3 19 = Some (Inr (\<lparr>rr_name = ''a'', rr_type = ''A'', rr_class = 1, rr_ttl = 300,
            rr_data = Str ''1.2.3.4''\<rparr>, 35))"
    by (simp add: eval_items)
  have f3: "parse_resource_record ?p3 35 = Some (Inl StructError)"
    by (simp add: eval_items)
  have i3_1: "items_at (parse_question ?p3) 12 [\<lparr>q_name = ''a'', q_type = ''A'', q_class = 1\<rparr>] = Some 19"
    by (simp add: q3 r3_0)
  have i3_2: "items_at (parse_resource_record ?p3) 19 [\<lparr>rr_name = ''a'', rr_type = ''A'', rr_class = 1, rr_ttl = 300,
            rr_data = Str ''1.2.3.4''\<rparr>] = Some 35"
    by (simp add: q3 r3_0)
  have i3_3: "items_at (parse_resource_record ?p3) 35 [] = Some 35"
    by (simp add: q3 r3_0)
  have i3_4: "items_at (parse_resource_record ?p3) 35 [] = Some 35"
    by (simp add: q3 r3_0)
  have c3: "parse_response ?p3 (Some 4660) =
     Some (Inr \<lparr>r_id = 4660, status = ''NOERROR'', r_flags = 33152,
         questions = [\<lparr>q_name = ''a'', q_type = ''A'', q_class = 1\<rparr>],
         answers = [\<lparr>rr_name = ''a'', rr_type = ''A'', rr_class = 1, rr_ttl = 300,
            rr_data = Str ''1.2.3.4''\<rparr>],
         authority = [],
         additional = [],
         query_name = None, query_type = None, dns_server = None\<rparr>)"
    using malformed_section_partial_response[OF _ h3 _ i3_1 i3_2 i3_3 i3_4,
        of "Some 4660" StructError]
    by (simp add: f3 initial_response_def status_of_rcode_def RESPONSE_CODES_def)
  let ?p4 = "[18, 52, 129, 128, 0, 1, 0, 1, 0, 0, 0, 2, 1, 97, 0, 0, 1, 0, 1, 192, 12, 0, 1, 0, 1, 0, 0, 1, 44, 0, 4, 1, 2, 3, 4, 192, 12, 0, 1, 0, 1, 0, 0, 1, 44, 0, 4, 1, 2, 3, 4, 192, 12, 0] :: bytes"
  let ?h4 = "\<lparr>h_id = 4660, h_flags = 33152, qdcount = 1, ancount = 1, nscount = 0,
      arcount = 2, qr = 1, opcode = 0, aa = 0, tc = 0, rd = 1, ra = 1, rcode = 0\<rparr>"
  have h4: "parse_header ?p4 0 = Inr (?h4, 12)"
    by (simp add: parse_header_def slice_def)
  have q4: "parse_question ?p4 12 = Some (Inr (\<lparr>q_name = ''a'', q_type = ''A'', q_class = 1\<rparr>, 19))"
    by (simp add: eval_items)
  have r4_0: "parse_resource_record ?p4 19 = Some (Inr (\<lparr>rr_name = ''a'', rr_type = ''A'', rr_class = 1, rr_ttl = 300,
            rr_data = Str ''1.2.3.4''\<rparr>, 35))"
    by (simp add: eval_items)
  have r4_1: "parse_resource_record ?p4 35 = Some (Inr (\<lparr>rr_name = ''a'', rr_type = ''A'', rr_class = 1, rr_ttl = 300,
            rr_data = Str ''1.2.3.4''\<rparr>, 51))"
    by (simp add: eval_items)
  have f4: "parse_resource_record ?p4 51 = Some (Inl StructError)"
    by (simp add: eval_items)
  have i4_1: "items_at (parse_question ?p4) 12 [\<lparr>q_name = ''a'', q_type = ''A'', q_class = 1\<rparr>] = Some 19"
    by (simp add: q4 r4_0 r4_1)
  have i4_2: "items_at (parse_resource_record ?p4) 19 [\<lparr>rr_name = ''a'', rr_type = ''A'', rr_class = 1, rr_ttl = 300,
            rr_data = Str ''1.2.3.4''\<rparr>] = Some 35"
    by (simp add: q4 r4_0 r4_1)
  have i4_3: "items_at (parse_resource_record ?p4) 35 [] = Some 35"
    by (simp add: q4 r4_0 r4_1)
  have i4_4: "items_at (parse_resource_record ?p4) 35 [\<lparr>rr_name = ''a'', rr_type = ''A'', rr_class = 1, rr_ttl = 300,
            rr_data = Str ''1.2.3.4''\<rparr>] = Some 51"
    by (simp add: q4 r4_0 r4_1)
  have c4: "parse_response ?p4 (Some 4660) =
     Some (Inr \<lparr>r_id = 4660, status = ''NOERROR'', r_flags = 33152,
         questions = [\<lparr>q_name = ''a'', q_type = ''A'', q_class = 1\<rparr>],
         answers = [\<lparr>rr_name = ''a'', rr_type = ''A'', rr_class = 1, rr_ttl = 300,
            rr_data = Str ''1.2.3.4''\<rparr>],
         authority = [],
         additional = [\<lparr>rr_name = ''a'', rr_type = ''A'', rr_class = 1, rr_ttl = 300,
            rr_data = Str ''1.2.3.4''\<rparr>],
         query_name = None, query_type = None, dns_server = None\<rparr>)"
    using malformed_section_partial_response[OF _ h4 _ i4_1 i4_2 i4_3 i4_4,
        of "Some 4660" StructError]
    by (simp add: f4 initial_response_def status_of_rcode_def RESPONSE_CODES_def)
  from c1 c2 c3 c4 show ?thesis by simp
qed

section \<open>Eviction\<close>

lemma dict_set_new: "map_of kvs k = None \<Longrightarrow> dict_set kvs k v = kvs @ [(k, v)]"
  by (induction kvs) (auto split: if_splits)

lemma map_of_dict_set: "map_of (dict_set kvs k v) k = Some v"
  by (induction kvs) auto

lemma dict_del_filter:
  "distinct (map fst kvs) \<Longrightarrow> dict_del kvs k = filter (\<lambda>x. fst x \<noteq> k) kvs"
proof (induction kvs)
  case Nil
  then show ?case by simp
next
  case (Cons a kvs)
  obtain k' v' where a: "a = (k', v')" by (cases a)
  show ?case
  proof (cases "k' = k")
    case True
    with Cons.prems a have "k \<notin> fst ` set kvs" by auto
    then have "filter (\<lambda>x. fst x \<noteq> k) kvs = kvs"
      by (auto simp: filter_id_conv)
    with True a show ?thesis by simp
  next
    case False
    with Cons a show ?thesis by simp
  qed
qed

lemma length_dict_del:
  "(k, e) \<in> set kvs \<Longrightarrow> Suc (length (dict_del kvs k)) = length kvs"
  by (induction kvs) (auto split: if_splits)

lemma min_by_created_mem: "min_by_created b xs \<in> set (b # xs)"
  by (induction xs arbitrary: b) (auto split: if_splits)

lemma min_by_created_le_best: "created (snd (min_by_created b xs)) \<le> created (snd b)"
proof (induction xs arbitrary: b)
  case Nil
  then show ?case by simp
next
  case (Cons x xs)
  show ?case
    using Cons.IH[of x] Cons.IH[of b] by (auto split: if_splits)
qed

lemma min_by_created_le:
  "x \<in> set (b # xs) \<Longrightarrow> created (snd (min_by_created b xs)) \<le> created (snd x)"
proof (induction xs arbitrary: b)
  case Nil
  then show ?case by simp
next
  case (Cons y ys)
  let ?b' = "if created (snd y) < created (snd b) then y else b"
  from Cons.prems consider "x = b" | "x = y" | "x \<in> set ys" by auto
  then show ?case
  proof cases
    case 1
    have "created (snd (min_by_created ?b' ys)) \<le> created (snd ?b')"
      by (rule min_by_created_le_best)
    with 1 show ?thesis by (auto split: if_splits)
  next
    case 2
    have "created (snd (min_by_created ?b' ys)) \<le> created (snd ?b')"
      by (rule min_by_created_le_best)
    with 2 show ?thesis by (auto split: if_splits)
  next
    case 3
    then have "x \<in> set (?b' # ys)" by simp
    from Cons.IH[OF this] show ?thesis by simp
  qed
qed

text \<open>
  Claim C8. When the cache is filled to exactly \<open>max_size\<close> entries (it holds at least
  one, under pairwise different keys, as a dictionary does), a \<^verbatim>\<open>set\<close> of a new key
  with a positive TTL removes exactly one entry, one whose \<open>created\<close> is the least in
  the cache, adds 1 to the eviction counter, and then stores the new entry; the other
  entries stay as they are. \<open>created\<close> is the time of insertion: a \<^verbatim>\<open>get\<close> that hits
  changes no entry.
\<close>

theorem eviction_at_max_size:
  assumes "cache cm \<noteq> []" and "int (length (cache cm)) = max_size cm"
    and "distinct (map fst (cache cm))"
    and "map_of (cache cm) key = None" and "0 < ttl"
  shows "\<exists>k e. (k, e) \<in> set (cache cm) \<and>
      (\<forall>x \<in> set (cache cm). created e \<le> created (snd x)) \<and>
      snd (set_entry copy now key d ttl w cm) =
        cm\<lparr>cache := filter (\<lambda>x. fst x \<noteq> k) (cache cm) @
                 [(key, \<lparr>data = fst (copy d w), expires = now + real_of_int ttl,
                          created = now\<rparr>)],
           evictions := evictions cm + 1\<rparr> \<and>
      length (filter (\<lambda>x. fst x \<noteq> k) (cache cm)) = length (cache cm) - 1 \<and>
      (\<forall>now' key' w'. fst (get copy now' key' w' cm) \<noteq> None \<longrightarrow>
          cache (snd (snd (get copy now' key' w' cm))) = cache cm)"
proof -
  from assms(1) obtain b xs where c: "cache cm = b # xs" by (cases "cache cm") auto
  define victim where "victim = min_by_created b xs"
  have mem: "victim \<in> set (cache cm)"
    unfolding victim_def c by (rule min_by_created_mem)
  have le: "\<forall>x \<in> set (cache cm). created (snd victim) \<le> created (snd x)"
    unfolding victim_def c using min_by_created_le by blast
  have del: "dict_del (cache cm) (fst victim) = filter (\<lambda>x. fst x \<noteq> fst victim) (cache cm)"
    by (rule dict_del_filter[OF assms(3)])
  have len: "length (dict_del (cache cm) (fst victim)) = length (cache cm) - 1"
    using length_dict_del[of "fst victim" "snd victim" "cache cm"] mem by simp
  have ev: "evict_oldest cm =
      cm\<lparr>cache := dict_del (cache cm) (fst victim), evictions := evictions cm + 1\<rparr>"
    by (simp add: evict_oldest_def c victim_def)
  have none: "map_of (dict_del (cache cm) (fst victim)) key = None"
    using assms(4) unfolding del by (auto simp: map_of_eq_None_iff)
  have st: "snd (set_entry copy now key d ttl w cm) =
        cm\<lparr>cache := dict_del (cache cm) (fst victim) @
                 [(key, \<lparr>data = fst (copy d w), expires = now + real_of_int ttl,
                          created = now\<rparr>)],
           evictions := evictions cm + 1\<rparr>"
    using assms(2,4,5) by (simp add: set_entry_def ev dict_set_new[OF none])
  have hit: "\<forall>now' key' w'. fst (get copy now' key' w' cm) \<noteq> None \<longrightarrow>
          cache (snd (snd (get copy now' key' w' cm))) = cache cm"
    by (auto simp: get_def split: option.splits)
  show ?thesis
    apply (rule exI[of _ "fst victim"], rule exI[of _ "snd victim"])
    using mem le st len hit unfolding del by simp
qed

text \<open>
  The theorem at a cache of \<open>max_size\<close> 2 holding \<open>a\<close>, created at 10, and \<open>b\<close>, created
  at 5: storing \<open>c\<close> at time 20 evicts \<open>b\<close>.
\<close>

theorem eviction_at_max_size_witness:
  "cache \<lparr>max_size = 2,
          cache = [(''a'', \<lparr>data = 1::nat, expires = 100, created = 10\<rparr>),
                   (''b'', \<lparr>data = 2, expires = 100, created = 5\<rparr>)],
          hits = 0, misses = 0, evictions = 0, cleanups = 0\<rparr> \<noteq> [] \<and>
   map_of [(''a'', \<lparr>data = 1::nat, expires = 100, created = 10\<rparr>),
           (''b'', \<lparr>data = 2, expires = 100, created = 5\<rparr>)] ''c'' = None \<and>
   snd (set_entry copy_value 20 ''c'' 3 60 ()
     \<lparr>max_size = 2,
      cache = [(''a'', \<lparr>data = 1::nat, expires = 100, created = 10\<rparr>),
               (''b'', \<lparr>data = 2, expires = 100, created = 5\<rparr>)],
      hits = 0, misses = 0, evictions = 0, cleanups = 0\<rparr>) =
     \<lparr>max_size = 2,
      cache = [(''a'', \<lparr>data = 1::nat, expires = 100, created = 10\<rparr>),
               (''c'', \<lparr>data = 3, expires = 80, created = 20\<rparr>)],
      hits = 0, misses = 0, evictions = 1, cleanups = 0\<rparr>"
  using eviction_at_max_size[of
      "\<lparr>max_size = 2,
        cache = [(''a'', \<lparr>data = 1::nat, expires = 100, created = 10\<rparr>),
                 (''b'', \<lparr>data = 2, expires = 100, created = 5\<rparr>)],
        hits = 0, misses = 0, evictions = 0, cleanups = 0\<rparr>" "''c''" 60 copy_value 20 3 "()"]
  by (auto simp: copy_value_def)

section \<open>What a query stores in the cache\<close>

lemma get_minimum_ttl_Min:
  "get_minimum_ttl resp =
     (if answers resp @ authority resp @ additional resp = [] then 300
      else Min (set (map rr_ttl (answers resp @ authority resp @ additional resp))))"
proof (cases "map rr_ttl (answers resp @ authority resp @ additional resp)")
  case Nil
  then show ?thesis by (simp add: get_minimum_ttl_def)
next
  case (Cons t ts)
  then have ne: "answers resp @ authority resp @ additional resp \<noteq> []" by auto
  have "get_minimum_ttl resp = fold min ts t"
    unfolding get_minimum_ttl_def Cons by simp
  also have "\<dots> = Min (set (t # ts))"
    by (rule Min.set_eq_fold[symmetric])
  also have "\<dots> = Min (set (map rr_ttl (answers resp @ authority resp @ additional resp)))"
    unfolding Cons ..
  finally show ?thesis unfolding if_not_P[OF ne] .
qed

lemma dict_del_subset: "x \<in> set (dict_del kvs k) \<Longrightarrow> x \<in> set kvs"
  by (induction kvs) (auto split: if_splits)

lemma get_miss_cache_subset:
  "get copy now key w cm = (None, w', cm1) \<Longrightarrow> set (cache cm1) \<subseteq> set (cache cm)"
  by (auto simp: get_def split: option.splits if_splits dest: dict_del_subset)

lemma parse_items_numeral:
  "parse_items parse_one (numeral k) offset items =
     (case parse_one offset of
        None \<Rightarrow> None
      | Some (Inl e) \<Rightarrow> Some (items, Inl e)
      | Some (Inr (item, offset1)) \<Rightarrow>
          parse_items parse_one (pred_numeral k) offset1 (items @ [item]))"
  by (simp add: numeral_eq_Suc)

lemmas eval_response = parse_response_def parse_header_def parse_sections_def
  initial_response_def status_of_rcode_def RESPONSE_CODES_def parse_items_numeral eval_items

lemmas eval_query = build_query_def build_question_def encode_domain_name_def
  BUILDER_RECORD_TYPES_def build_header_def pack_H_def pack_B_def encode_ascii_def CLASS_IN_def

text \<open>
  Claim C7. After a cache miss, a query whose decoded response has status NOERROR is
  to store the response under the minimum TTL of its answer, authority and additional
  records (300 when it has none), and a query that fails is to store nothing. The source
  stores only when that minimum is positive. What holds, \<open>cm1\<close> being the cache as the
  miss left it (no entry added): with status NOERROR and a positive minimum TTL the
  response, with the query's name, type and server added, is the entry under the cache
  key, expiring that many seconds after the time of storing; with another status or a
  minimum TTL of 0 the response is returned and the cache is \<open>cm1\<close>; and when building
  the query, the transport or the decoding raises, the query raises the same and the cache
  is \<open>cm1\<close>.
\<close>

theorem query_caches_positive_ttl:
  assumes miss: "get copy_value now_get (cache_key domain record_type server) () cm =
      (None, (), cm1)"
  shows
    "set (cache cm1) \<subseteq> set (cache cm) \<and>
     (build_query domain record_type transaction_id = Inr query_packet \<and>
      send_udp_query query_packet = Inr response_packet \<and>
      parse_response response_packet (Some transaction_id) = Some (Inr parsed) \<and>
      status parsed = ''NOERROR'' \<and> 0 < get_minimum_ttl parsed \<longrightarrow>
        (\<exists>cm2. query now_get now_set transaction_id send_udp_query domain record_type server
                 (Some cm) =
               Some (Inr (parsed\<lparr>query_name := Some domain, query_type := Some record_type,
                                  dns_server := Some server\<rparr>), Some cm2) \<and>
              map_of (cache cm2) (cache_key domain record_type server) =
                Some \<lparr>data = parsed\<lparr>query_name := Some domain,
                                     query_type := Some record_type,
                                     dns_server := Some server\<rparr>,
                      expires = now_set + real (get_minimum_ttl parsed),
                      created = now_set\<rparr> \<and>
              get_minimum_ttl parsed =
                (if answers parsed @ authority parsed @ additional parsed = [] then 300
                 else Min (set (map rr_ttl
                        (answers parsed @ authority parsed @ additional parsed)))))) \<and>
     (build_query domain record_type transaction_id = Inr query_packet \<and>
      send_udp_query query_packet = Inr response_packet \<and>
      parse_response response_packet (Some transaction_id) = Some (Inr parsed) \<and>
      (status parsed \<noteq> ''NOERROR'' \<or> get_minimum_ttl parsed = 0) \<longrightarrow>
        query now_get now_set transaction_id send_udp_query domain record_type server (Some cm) =
          Some (Inr (parsed\<lparr>query_name := Some domain, query_type := Some record_type,
                             dns_server := Some server\<rparr>), Some cm1)) \<and>
     (build_query domain record_type transaction_id = Inl e \<or>
      build_query domain record_type transaction_id = Inr query_packet \<and>
        send_udp_query query_packet = Inl e \<or>
      build_query domain record_type transaction_id = Inr query_packet \<and>
        send_udp_query query_packet = Inr response_packet \<and>
        parse_response response_packet (Some transaction_id) = Some (Inl e) \<longrightarrow>
        query now_get now_set transaction_id send_udp_query domain record_type server (Some cm) =
          Some (Inl e, Some cm1))"
proof (intro conjI impI)
  show "set (cache cm1) \<subseteq> set (cache cm)"
    using miss by (rule get_miss_cache_subset)
next
  let ?resp = "parsed\<lparr>query_name := Some domain, query_type := Some record_type,
                      dns_server := Some server\<rparr>"
  assume a: "build_query domain record_type transaction_id = Inr query_packet \<and>
      send_udp_query query_packet = Inr response_packet \<and>
      parse_response response_packet (Some transaction_id) = Some (Inr parsed) \<and>
      status parsed = ''NOERROR'' \<and> 0 < get_minimum_ttl parsed"
  have t: "get_minimum_ttl ?resp = get_minimum_ttl parsed"
    by (simp add: get_minimum_ttl_def)
  let ?cm2 = "snd (set_entry copy_value now_set (cache_key domain record_type server) ?resp
                 (int (get_minimum_ttl parsed)) () cm1)"
  have q: "query now_get now_set transaction_id send_udp_query domain record_type server
      (Some cm) = Some (Inr ?resp, Some ?cm2)"
    using a miss by (simp add: query_def t Let_def)
  have m: "map_of (cache ?cm2) (cache_key domain record_type server) =
      Some \<lparr>data = ?resp, expires = now_set + real (get_minimum_ttl parsed),
            created = now_set\<rparr>"
    using a by (simp add: set_entry_def Let_def map_of_dict_set copy_value_def)
  show "\<exists>cm2. query now_get now_set transaction_id send_udp_query domain record_type server
                 (Some cm) = Some (Inr ?resp, Some cm2) \<and>
              map_of (cache cm2) (cache_key domain record_type server) =
                Some \<lparr>data = ?resp, expires = now_set + real (get_minimum_ttl parsed),
                      created = now_set\<rparr> \<and>
              get_minimum_ttl parsed =
                (if answers parsed @ authority parsed @ additional parsed = [] then 300
                 else Min (set (map rr_ttl
                        (answers parsed @ authority parsed @ additional parsed))))"
    using q m get_minimum_ttl_Min[of parsed] by blast
next
  assume a: "build_query domain record_type transaction_id = Inr query_packet \<and>
      send_udp_query query_packet = Inr response_packet \<and>
      parse_response response_packet (Some transaction_id) = Some (Inr parsed) \<and>
      (status parsed \<noteq> ''NOERROR'' \<or> get_minimum_ttl parsed = 0)"
  have t: "get_minimum_ttl (parsed\<lparr>query_name := Some domain, query_type := Some record_type,
                      dns_server := Some server\<rparr>) = get_minimum_ttl parsed"
    by (simp add: get_minimum_ttl_def)
  show "query now_get now_set transaction_id send_udp_query domain record_type server (Some cm) =
          Some (Inr (parsed\<lparr>query_name := Some domain, query_type := Some record_type,
                             dns_server := Some server\<rparr>), Some cm1)"
    using a miss by (auto simp: query_def t Let_def)
next
  assume a: "build_query domain record_type transaction_id = Inl e \<or>
      build_query domain record_type transaction_id = Inr query_packet \<and>
        send_udp_query query_packet = Inl e \<or>
      build_query domain record_type transaction_id = Inr query_packet \<and>
        send_udp_query query_packet = Inr response_packet \<and>
        parse_response response_packet (Some transaction_id) = Some (Inl e)"
  show "query now_get now_set transaction_id send_udp_query domain record_type server (Some cm) =
          Some (Inl e, Some cm1)"
    using a miss by (auto simp: query_def Let_def)
qed

text \<open>
  The theorem at three queries for \<open>a\<close>, type A, on an empty cache: a reply with two
  answers of TTL 600 and 300, a reply with status NXDOMAIN, and a transport that times out.
\<close>

theorem query_caches_positive_ttl_witness:
  "(\<exists>cm2. query 100 101 4660 (\<lambda>q. Inr [18, 52, 129, 128, 0, 1, 0, 2, 0, 0, 0, 0, 1, 97, 0, 0, 1, 0, 1, 192, 12, 0, 1, 0, 1, 0, 0, 2, 88, 0, 4, 1, 2, 3, 4, 192, 12, 0, 1, 0, 1, 0, 0, 1, 44, 0, 4, 1, 2, 3, 4]) ''a'' ''A'' ''8.8.8.8''
       (Some (init_cache 10)) =
       Some (Inr \<lparr>r_id = 4660, status = ''NOERROR'', r_flags = 33152,
         questions = [\<lparr>q_name = ''a'', q_type = ''A'', q_class = 1\<rparr>],
         answers = [\<lparr>rr_name = ''a'', rr_type = ''A'', rr_class = 1, rr_ttl = 600,
            rr_data = Str ''1.2.3.4''\<rparr>, \<lparr>rr_name = ''a'', rr_type = ''A'', rr_class = 1, rr_ttl = 300,
            rr_data = Str ''1.2.3.4''\<rparr>],
         authority = [], additional = [],
         query_name = Some ''a'', query_type = Some ''A'',
         dns_server = Some ''8.8.8.8''\<rparr>, Some cm2) \<and>
     map_of (cache cm2) ''a:A:8.8.8.8'' =
       Some \<lparr>data = \<lparr>r_id = 4660, status = ''NOERROR'', r_flags = 33152,
         questions = [\<lparr>q_name = ''a'', q_type = ''A'', q_class = 1\<rparr>],
         answers = [\<lparr>rr_name = ''a'', rr_type = ''A'', rr_class = 1, rr_ttl = 600,
            rr_data = Str ''1.2.3.4''\<rparr>, \<lparr>rr_name = ''a'', rr_type = ''A'', rr_class = 1, rr_ttl = 300,
            rr_data = Str ''1.2.3.4''\<rparr>],
         authority = [], additional = [],
         query_name = Some ''a'', query_type = Some ''A'',
         dns_server = Some ''8.8.8.8''\<rparr>,
             expires = 401, created = 101\<rparr>) \<and>
   query 100 101 4660 (\<lambda>q. Inr [18, 52, 129, 131, 0, 1, 0, 0, 0, 0, 0, 0, 1, 97, 0, 0, 1, 0, 1]) ''a'' ''A'' ''8.8.8.8''
       (Some (init_cache 10)) =
     Some (Inr \<lparr>r_id = 4660, status = ''NXDOMAIN'', r_flags = 33155,
         questions = [\<lparr>q_name = ''a'', q_type = ''A'', q_class = 1\<rparr>],
         answers = [],
         authority = [], additional = [],
         query_name = Some ''a'', query_type = Some ''A'',
         dns_server = Some ''8.8.8.8''\<rparr>,
           Some \<lparr>max_size = 10, cache = [], hits = 0, misses = 1, evictions = 0, cleanups = 0\<rparr>) \<and>
   query 100 101 4660 (\<lambda>q. Inl (TransportError ''timeout'')) ''a'' ''A'' ''8.8.8.8''
       (Some (init_cache 10)) =
     Some (Inl (TransportError ''timeout''), Some \<lparr>max_size = 10, cache = [], hits = 0, misses = 1, evictions = 0, cleanups = 0\<rparr>)"
proof -
  have miss: "get copy_value 100 (cache_key ''a'' ''A'' ''8.8.8.8'') ()
      (init_cache 10 :: response cache_manager) = (None, (), \<lparr>max_size = 10, cache = [], hits = 0, misses = 1, evictions = 0, cleanups = 0\<rparr>)"
    by (simp add: get_def init_cache_def)
  have k: "cache_key ''a'' ''A'' ''8.8.8.8'' = ''a:A:8.8.8.8''"
    by (simp add: cache_key_def)
  have b: "build_query ''a'' ''A'' 4660 = Inr [18, 52, 1, 0, 0, 1, 0, 0, 0, 0, 0, 0, 1, 97, 0, 0, 1, 0, 1]"
    by (simp add: eval_query)
  have p1: "parse_response [18, 52, 129, 128, 0, 1, 0, 2, 0, 0, 0, 0, 1, 97, 0, 0, 1, 0, 1, 192, 12, 0, 1, 0, 1, 0, 0, 2, 88, 0, 4, 1, 2, 3, 4, 192, 12, 0, 1, 0, 1, 0, 0, 1, 44, 0, 4, 1, 2, 3, 4] (Some 4660) =
      Some (Inr \<lparr>r_id = 4660, status = ''NOERROR'', r_flags = 33152,
         questions = [\<lparr>q_name = ''a'', q_type = ''A'', q_class = 1\<rparr>],
         answers = [\<lparr>rr_name = ''a'', rr_type = ''A'', rr_class = 1, rr_ttl = 600,
            rr_data = Str ''1.2.3.4''\<rparr>, \<lparr>rr_name = ''a'', rr_type = ''A'', rr_class = 1, rr_ttl = 300,
            rr_data = Str ''1.2.3.4''\<rparr>],
         authority = [], additional = [],
         query_name = None, query_type = None, dns_server = None\<rparr>)"
    by (simp add: eval_response)
  have p2: "parse_response [18, 52, 129, 131, 0, 1, 0, 0, 0, 0, 0, 0, 1, 97, 0, 0, 1, 0, 1] (Some 4660) =
      Some (Inr \<lparr>r_id = 4660, status = ''NXDOMAIN'', r_flags = 33155,
         questions = [\<lparr>q_name = ''a'', q_type = ''A'', q_class = 1\<rparr>],
         answers = [],
         authority = [], additional = [],
         query_name = None, query_type = None, dns_server = None\<rparr>)"
    by (simp add: eval_response)
  have t1: "get_minimum_ttl \<lparr>r_id = 4660, status = ''NOERROR'', r_flags = 33152,
         questions = [\<lparr>q_name = ''a'', q_type = ''A'', q_class = 1\<rparr>],
         answers = [\<lparr>rr_name = ''a'', rr_type = ''A'', rr_class = 1, rr_ttl = 600,
            rr_data = Str ''1.2.3.4''\<rparr>, \<lparr>rr_name = ''a'', rr_type = ''A'', rr_class = 1, rr_ttl = 300,
            rr_data = Str ''1.2.3.4''\<rparr>],
         authority = [], additional = [],
         query_name = None, query_type = None, dns_server = None\<rparr> = 300"
    by (simp add: get_minimum_ttl_def)
  note w1 = query_caches_positive_ttl[OF miss, where transaction_id = 4660
      and query_packet = "[18, 52, 1, 0, 0, 1, 0, 0, 0, 0, 0, 0, 1, 97, 0, 0, 1, 0, 1]"
      and send_udp_query = "\<lambda>q. Inr [18, 52, 129, 128, 0, 1, 0, 2, 0, 0, 0, 0, 1, 97, 0, 0, 1, 0, 1, 192, 12, 0, 1, 0, 1, 0, 0, 2, 88, 0, 4, 1, 2, 3, 4, 192, 12, 0, 1, 0, 1, 0, 0, 1, 44, 0, 4, 1, 2, 3, 4]"
      and response_packet = "[18, 52, 129, 128, 0, 1, 0, 2, 0, 0, 0, 0, 1, 97, 0, 0, 1, 0, 1, 192, 12, 0, 1, 0, 1, 0, 0, 2, 88, 0, 4, 1, 2, 3, 4, 192, 12, 0, 1, 0, 1, 0, 0, 1, 44, 0, 4, 1, 2, 3, 4]"
      and parsed = "\<lparr>r_id = 4660, status = ''NOERROR'', r_flags = 33152,
         questions = [\<lparr>q_name = ''a'', q_type = ''A'', q_class = 1\<rparr>],
         answers = [\<lparr>rr_name = ''a'', rr_type = ''A'', rr_class = 1, rr_ttl = 600,
            rr_data = Str ''1.2.3.4''\<rparr>, \<lparr>rr_name = ''a'', rr_type = ''A'', rr_class = 1, rr_ttl = 300,
            rr_data = Str ''1.2.3.4''\<rparr>],
         authority = [], additional = [],
         query_name = None, query_type = None, dns_server = None\<rparr>"
      and now_set = 101]
  note w2 = query_caches_positive_ttl[OF miss, where transaction_id = 4660
      and query_packet = "[18, 52, 1, 0, 0, 1, 0, 0, 0, 0, 0, 0, 1, 97, 0, 0, 1, 0, 1]"
      and send_udp_query = "\<lambda>q. Inr [18, 52, 129, 131, 0, 1, 0, 0, 0, 0, 0, 0, 1, 97, 0, 0, 1, 0, 1]"
      and response_packet = "[18, 52, 129, 131, 0, 1, 0, 0, 0, 0, 0, 0, 1, 97, 0, 0, 1, 0, 1]"
      and parsed = "\<lparr>r_id = 4660, status = ''NXDOMAIN'', r_flags = 33155,
         questions = [\<lparr>q_name = ''a'', q_type = ''A'', q_class = 1\<rparr>],
         answers = [],
         authority = [], additional = [],
         query_name = None, query_type = None, dns_server = None\<rparr>"
      and now_set = 101]
  note w3 = query_caches_positive_ttl[OF miss, where transaction_id = 4660
      and query_packet = "[18, 52, 1, 0, 0, 1, 0, 0, 0, 0, 0, 0, 1, 97, 0, 0, 1, 0, 1]"
      and send_udp_query = "\<lambda>q. Inl (TransportError ''timeout'')"
      and e = "TransportError ''timeout''"
      and now_set = 101]
  have c1: "\<exists>cm2. query 100 101 4660 (\<lambda>q. Inr [18, 52, 129, 128, 0, 1, 0, 2, 0, 0, 0, 0, 1, 97, 0, 0, 1, 0, 1, 192, 12, 0, 1, 0, 1, 0, 0, 2, 88, 0, 4, 1, 2, 3, 4, 192, 12, 0, 1, 0, 1, 0, 0, 1, 44, 0, 4, 1, 2, 3, 4]) ''a'' ''A'' ''8.8.8.8''
       (Some (init_cache 10)) =
       Some (Inr \<lparr>r_id = 4660, status = ''NOERROR'', r_flags = 33152,
         questions = [\<lparr>q_name = ''a'', q_type = ''A'', q_class = 1\<rparr>],
         answers = [\<lparr>rr_name = ''a'', rr_type = ''A'', rr_class = 1, rr_ttl = 600,
            rr_data = Str ''1.2.3.4''\<rparr>, \<lparr>rr_name = ''a'', rr_type = ''A'', rr_class = 1, rr_ttl = 300,
            rr_data = Str ''1.2.3.4''\<rparr>],
         authority = [], additional = [],
         query_name = Some ''a'', query_type = Some ''A'',
         dns_server = Some ''8.8.8.8''\<rparr>, Some cm2) \<and>
     map_of (cache cm2) ''a:A:8.8.8.8'' =
       Some \<lparr>data = \<lparr>r_id = 4660, status = ''NOERROR'', r_flags = 33152,
         questions = [\<lparr>q_name = ''a'', q_type = ''A'', q_class = 1\<rparr>],
         answers = [\<lparr>rr_name = ''a'', rr_type = ''A'', rr_class = 1, rr_ttl = 600,
            rr_data = Str ''1.2.3.4''\<rparr>, \<lparr>rr_name = ''a'', rr_type = ''A'', rr_class = 1, rr_ttl = 300,
            rr_data = Str ''1.2.3.4''\<rparr>],
         authority = [], additional = [],
         query_name = Some ''a'', query_type = Some ''A'',
         dns_server = Some ''8.8.8.8''\<rparr>,
             expires = 401, created = 101\<rparr>"
    using w1 b p1 t1 k by simp
  have c2: "query 100 101 4660 (\<lambda>q. Inr [18, 52, 129, 131, 0, 1, 0, 0, 0, 0, 0, 0, 1, 97, 0, 0, 1, 0, 1]) ''a'' ''A'' ''8.8.8.8''
       (Some (init_cache 10)) =
     Some (Inr \<lparr>r_id = 4660, status = ''NXDOMAIN'', r_flags = 33155,
         questions = [\<lparr>q_name = ''a'', q_type = ''A'', q_class = 1\<rparr>],
         answers = [],
         authority = [], additional = [],
         query_name = Some ''a'', query_type = Some ''A'',
         dns_server = Some ''8.8.8.8''\<rparr>,
           Some \<lparr>max_size = 10, cache = [], hits = 0, misses = 1, evictions = 0, cleanups = 0\<rparr>)"
    using w2 b p2 by simp
  have c3: "query 100 101 4660 (\<lambda>q. Inl (TransportError ''timeout'')) ''a'' ''A'' ''8.8.8.8''
       (Some (init_cache 10)) =
     Some (Inl (TransportError ''timeout''), Some \<lparr>max_size = 10, cache = [], hits = 0, misses = 1, evictions = 0, cleanups = 0\<rparr>)"
    using w3 b by simp
  from c1 c2 c3 show ?thesis by blast
qed

text \<open>
  Against the claim as it is stated: a reply with status NOERROR whose only answer has
  TTL 0 is returned and the cache stays empty.
\<close>

theorem zero_ttl_response_not_cached:
  "query 100 101 4660 (\<lambda>q. Inr [18, 52, 129, 128, 0, 1, 0, 1, 0, 0, 0, 0, 1, 97, 0, 0, 1, 0, 1, 192, 12, 0, 1, 0, 1, 0, 0, 0, 0, 0, 4, 1, 2, 3, 4]) ''a'' ''A'' ''8.8.8.8''
       (Some (init_cache 10)) =
     Some (Inr \<lparr>r_id = 4660, status = ''NOERROR'', r_flags = 33152,
         questions = [\<lparr>q_name = ''a'', q_type = ''A'', q_class = 1\<rparr>],
         answers = [\<lparr>rr_name = ''a'', rr_type = ''A'', rr_class = 1, rr_ttl = 0,
            rr_data = Str ''1.2.3.4''\<rparr>],
         authority = [], additional = [],
         query_name = Some ''a'', query_type = Some ''A'',
         dns_server = Some ''8.8.8.8''\<rparr>,
           Some \<lparr>max_size = 10, cache = [], hits = 0, misses = 1, evictions = 0, cleanups = 0\<rparr>)"
  by (simp add: query_def get_def init_cache_def cache_key_def copy_value_def eval_query
      eval_response get_minimum_ttl_def)


section \<open>The status string of a response\<close>

text \<open>
  Claim C10. The status of a decoded response is read from the 4-bit rcode of the header:
  0 to 5 give NOERROR, FORMERR, SERVFAIL, NXDOMAIN, NOTIMP, REFUSED, and any other code
  \<open>c\<close> is to give \<open>UNKNOWN(c)\<close>. The source builds the default string without the closing
  parenthesis: a header whose flags are \<open>0x8186\<close> (rcode 6) gets the status
  \<open>UNKNOWN(6\<close>, while flags \<open>0x8183\<close> give qr 1, rcode 3 and NXDOMAIN as claimed.
\<close>

theorem unknown_rcode_status_unclosed:
  "map_option (map_sum id status)
     (parse_response [0x12, 0x34, 0x81, 0x86, 0, 0, 0, 0, 0, 0, 0, 0] None) =
     Some (Inr ''UNKNOWN(6'') \<and>
   map_option (map_sum id status)
     (parse_response [0x12, 0x34, 0x81, 0x83, 0, 0, 0, 0, 0, 0, 0, 0] None) =
     Some (Inr ''NXDOMAIN'') \<and>
   map_sum id (\<lambda>(h, offset). (qr h, rcode h))
     (parse_header [0x12, 0x34, 0x81, 0x83, 0, 0, 0, 0, 0, 0, 0, 0] 0) = Inr (1, 3)"
  by (simp add: parse_response_def parse_header_def slice_def parse_sections_def
      initial_response_def status_of_rcode_def RESPONSE_CODES_def str_nat.simps)

section \<open>The size of the cache\<close>

lemma length_dict_del_le: "length (dict_del kvs k) \<le> length kvs"
  by (induction kvs) auto

lemma length_fold_dict_del: "length (fold (\<lambda>key c. dict_del c key) ks kvs) \<le> length kvs"
proof (induction ks arbitrary: kvs)
  case Nil
  then show ?case by simp
next
  case (Cons k ks)
  have "length (fold (\<lambda>key c. dict_del c key) ks (dict_del kvs k)) \<le> length (dict_del kvs k)"
    by (rule Cons.IH)
  also have "\<dots> \<le> length kvs" by (rule length_dict_del_le)
  finally show ?case by simp
qed

lemma length_dict_set:
  "length (dict_set kvs k v) = (if map_of kvs k = None then Suc (length kvs) else length kvs)"
  by (induction kvs) auto

lemma map_of_dict_del_None: "map_of kvs k = None \<Longrightarrow> map_of (dict_del kvs k') k = None"
  by (induction kvs) (auto split: if_splits)

lemma evict_oldest_length:
  "cache cm \<noteq> [] \<Longrightarrow> Suc (length (cache (evict_oldest cm))) = length (cache cm)"
proof -
  assume "cache cm \<noteq> []"
  then obtain b xs where c: "cache cm = b # xs" by (cases "cache cm") auto
  have "min_by_created b xs \<in> set (cache cm)"
    unfolding c by (rule min_by_created_mem)
  then have "(fst (min_by_created b xs), snd (min_by_created b xs)) \<in> set (cache cm)" by simp
  from length_dict_del[OF this] show ?thesis
    by (simp add: evict_oldest_def c)
qed

lemma evict_oldest_max_size: "max_size (evict_oldest cm) = max_size cm"
  by (auto simp: evict_oldest_def split: list.splits)

lemma evict_oldest_absent:
  "map_of (cache cm) k = None \<Longrightarrow> map_of (cache (evict_oldest cm)) k = None"
  by (auto simp: evict_oldest_def map_of_dict_del_None split: list.splits)

lemma set_entry_size_ok:
  assumes "1 \<le> max_size cm" and "size_ok cm"
  shows "size_ok (snd (set_entry copy now key d ttl w cm)) \<and>
         max_size (snd (set_entry copy now key d ttl w cm)) = max_size cm"
proof (cases "ttl \<le> 0")
  case True
  with assms show ?thesis by (simp add: set_entry_def)
next
  case False
  show ?thesis
  proof (cases "int (length (cache cm)) \<ge> max_size cm \<and> map_of (cache cm) key = None")
    case True
    with assms have ne: "cache cm \<noteq> []" by (auto simp: size_ok_def)
    from evict_oldest_length[OF ne] True assms(2) evict_oldest_absent[of cm key]
      evict_oldest_max_size[of cm]
    show ?thesis using False
      by (auto simp: set_entry_def Let_def size_ok_def length_dict_set)
  next
    case F: False
    with assms(2) False show ?thesis
      by (auto simp: set_entry_def Let_def size_ok_def length_dict_set)
  qed
qed

lemma apply_op_size_ok:
  assumes "1 \<le> max_size cm" and "size_ok cm"
  shows "size_ok (snd (apply_op copy op (w, cm))) \<and>
         max_size (snd (apply_op copy op (w, cm))) = max_size cm"
proof (cases op)
  case (OpSet now key d ttl)
  then show ?thesis using set_entry_size_ok[OF assms] by simp
next
  case (OpGet now key)
  then show ?thesis using assms(2) length_dict_del_le[of "cache cm" key]
    by (auto simp: get_def size_ok_def split: option.splits)
next
  case (OpIsCached now key)
  then show ?thesis using assms(2) length_dict_del_le[of "cache cm" key]
    by (auto simp: is_cached_def size_ok_def split: option.splits)
next
  case (OpGetTtl now key)
  then show ?thesis using assms(2) length_dict_del_le[of "cache cm" key]
    by (auto simp: get_ttl_def size_ok_def split: option.splits)
next
  case (OpDelete key)
  then show ?thesis using assms(2) length_dict_del_le[of "cache cm" key]
    by (auto simp: delete_def size_ok_def)
next
  case OpClear
  then show ?thesis using assms by (auto simp: clear_cache_def size_ok_def)
next
  case (OpCleanup now)
  then show ?thesis using assms(2)
      length_fold_dict_del[of "map fst (filter (\<lambda>(key, entry). now \<ge> expires entry) (cache cm))"
        "cache cm"]
    by (auto simp: cleanup_expired_def size_ok_def Let_def)
qed

text \<open>
  Every path into the cache other than \<^verbatim>\<open>import_cache\<close> keeps the bound: from a cache
  with \<open>max_size \<ge> 1\<close> that holds at most \<open>max_size\<close> entries, no sequence of \<^verbatim>\<open>set\<close>,
  \<^verbatim>\<open>get\<close>, \<^verbatim>\<open>is_cached\<close>, \<^verbatim>\<open>get_ttl\<close>, \<^verbatim>\<open>delete\<close>, \<^verbatim>\<open>clear_cache\<close> and cleanup
  passes leaves more than \<open>max_size\<close> entries.
\<close>

lemma size_bounded_without_import:
  assumes "1 \<le> max_size cm" and "int (length (cache cm)) \<le> max_size cm"
  shows "int (length (cache (snd (fold (apply_op copy) ops (w, cm))))) \<le> max_size cm"
proof -
  have "size_ok (snd (fold (apply_op copy) ops (w, cm))) \<and>
        max_size (snd (fold (apply_op copy) ops (w, cm))) = max_size cm"
    if "1 \<le> max_size cm" and "size_ok cm" for w and cm :: "'a cache_manager"
    using that
  proof (induction ops arbitrary: w cm)
    case Nil
    then show ?case by simp
  next
    case (Cons op ops)
    obtain w' cm' where a: "apply_op copy op (w, cm) = (w', cm')"
      by (cases "apply_op copy op (w, cm)")
    from apply_op_size_ok[OF Cons.prems, where copy = copy and op = op and w = w] a
    have "size_ok cm'" "max_size cm' = max_size cm" by simp_all
    with Cons.IH[of cm' w'] Cons.prems(1) a show ?case by simp
  qed
  note inv = this
  have "size_ok cm" using assms(2) by (simp add: size_ok_def)
  from inv[OF assms(1) this, of w] show ?thesis by (simp add: size_ok_def)
qed

lemma size_bounded_without_import_example:
  "(1::int) \<le> max_size (init_cache 1 :: nat cache_manager) \<and>
   int (length (cache (init_cache 1 :: nat cache_manager))) \<le> max_size (init_cache 1 :: nat cache_manager) \<and>
   int (length (cache (snd (fold (apply_op copy_value)
       [OpSet 10 ''a'' (1::nat) 60, OpSet 11 ''b'' 2 60, OpGet 12 ''a'', OpCleanup 100,
        OpSet 101 ''c'' 3 60]
       ((), init_cache 1))))) \<le> 1"
  using size_bounded_without_import[of "init_cache 1 :: nat cache_manager" copy_value
      "[OpSet 10 ''a'' (1::nat) 60, OpSet 11 ''b'' 2 60, OpGet 12 ''a'', OpCleanup 100,
        OpSet 101 ''c'' 3 60]" "()"]
  by (simp add: init_cache_def)

text \<open>
  Claim C2. The number of entries in the cache is never to exceed \<open>max_size\<close>, whatever
  operations run. \<^verbatim>\<open>set\<close> evicts before it stores a new key, but \<^verbatim>\<open>import_cache\<close>
  assigns every entry of the file: importing two live entries into an empty cache of
  \<open>max_size\<close> 1 leaves two entries in it.
\<close>

theorem import_cache_exceeds_max_size:
  "(case import_cache 100
           (Inr [(''a.example:A:8.8.8.8'', \<lparr>ie_data = Some (0::nat), ie_ttl_remaining = Some 60\<rparr>),
                 (''b.example:A:8.8.8.8'', \<lparr>ie_data = Some 1, ie_ttl_remaining = Some 60\<rparr>)])
           (init_cache 1) of
      (err, cm) \<Rightarrow> err = None \<and> max_size cm = 1 \<and> length (cache cm) = 2)"
  by (simp add: import_cache_def init_cache_def)

section \<open>What a read of the cache shares with the cache\<close>

text \<open>
  Claim C3. \<^verbatim>\<open>get\<close> is to return a deep copy: nothing of the returned value shared with
  the stored entry. The source returns \<^verbatim>\<open>entry['data'].copy()\<close>, a new dictionary whose
  items are the stored ones. With a response at address 0 whose \<open>answers\<close> is the list at
  address 1: \<^verbatim>\<open>set\<close> stores the copy at address 2, \<^verbatim>\<open>get\<close> returns the copy at
  address 3, and both have the list at address 1 as their \<open>answers\<close>. Appending to the
  \<open>answers\<close> of the returned value changes what the cache holds: the next \<^verbatim>\<open>get\<close>
  returns the longer list.
\<close>

theorem get_shares_answers_with_cache:
  "(case set_entry shallow_copy 100 ''k'' 0 300
           [DictObj [(''status'', VStr ''NOERROR''), (''answers'', VRef 1)],
            ListObj [VStr ''192.168.1.1'']] (init_cache 10) of
      (st1, cm1) \<Rightarrow>
        (case get shallow_copy 101 ''k'' st1 cm1 of
           (r, st2, cm2) \<Rightarrow>
             r = Some 3 \<and> map_option data (map_of (cache cm2) ''k'') = Some 2 \<and>
             dict_item st2 3 ''answers'' = Some (VRef 1) \<and>
             dict_item st2 2 ''answers'' = Some (VRef 1) \<and>
             list_items st2 (VRef 1) = Some [VStr ''192.168.1.1''] \<and>
             (case get shallow_copy 102 ''k''
                     (list_append st2 (VRef 1) (VStr ''6.6.6.6'')) cm2 of
                (r', st4, cm4) \<Rightarrow>
                  r' = Some 4 \<and> dict_item st4 4 ''answers'' = Some (VRef 1) \<and>
                  list_items st4 (VRef 1) = Some [VStr ''192.168.1.1'', VStr ''6.6.6.6''])))"
  by (simp add: set_entry_def get_def shallow_copy_def init_cache_def dict_item_def
      list_items_def list_append_def nth_append)

end
